theory Spec2Isabelle
  imports Complex_Main "HOL-Library.Sublist"
begin

section \<open>Strings\<close>

text \<open>
  A Python string is the list of its code points.  \<open>ustr\<close> gives the code points of a
  literal of the source whose characters are all ASCII.  The identifiers that the framework
  passes in (the \<^verbatim>\<open>prop_id\<close> of a trigger) and the texts that are only displayed stay of
  type \<^typ>\<open>string\<close>; display texts with code points beyond ASCII are carried as their
  UTF-8 bytes, and no operation modelled here looks inside them.
\<close>

type_synonym ustring = "int list"

definition ustr :: "string \<Rightarrow> ustring" where
  "ustr s = map of_char s"

text \<open>
  \<^verbatim>\<open>str.lower\<close> on one code point.  The letters A-Z move up by 32, and so do the upper-case
  letters of the Latin-1 block (192..222 but the multiplication sign 215).  The capital I
  with a dot above, U+0130, becomes \<^verbatim>\<open>i\<close> followed by the combining dot U+0307; it is the
  only code point whose lower-case form is longer than one.  The Kelvin sign, U+212A,
  becomes \<^verbatim>\<open>k\<close>.  These two are the only code points beyond ASCII whose lower-case form
  holds an ASCII character.  Every other code point beyond Latin-1 becomes one code point
  beyond ASCII; which one makes no difference to the two uses of \<^verbatim>\<open>lower\<close> in the source
  (the lower-cased text is stripped of what is outside \<^verbatim>\<open>[a-z0-9]\<close>, or searched for an
  ASCII word), and the model leaves such a code point as it is.
\<close>

definition lower_char :: "int \<Rightarrow> ustring" where
  "lower_char c =
     (if (65 \<le> c \<and> c \<le> 90) \<or> (192 \<le> c \<and> c \<le> 222 \<and> c \<noteq> 215) then [c + 32]
      else if c = 0x130 then [0x69, 0x307]
      else if c = 0x212A then [0x6B]
      else [c])"

definition lower :: "ustring \<Rightarrow> ustring" where
  "lower s = concat (map lower_char s)"

text \<open>The character class \<^verbatim>\<open>[a-z0-9]\<close> of the regular expression in \<^verbatim>\<open>_norm\<close>.\<close>

definition in_class :: "int \<Rightarrow> bool" where
  "in_class c = ((97 \<le> c \<and> c \<le> 122) \<or> (48 \<le> c \<and> c \<le> 57))"

text \<open>
  \<^verbatim>\<open>re.sub(r"[^a-z0-9]+", "", s)\<close>: scanning from the left, a character of the class is
  copied; at a character outside the class the greedy \<^verbatim>\<open>+\<close> takes the whole run of
  characters outside the class, and the run is replaced by the empty string.
\<close>

function re_sub_strip :: "ustring \<Rightarrow> ustring" where
  "re_sub_strip [] = []"
| "re_sub_strip (c # cs) =
     (if in_class c then c # re_sub_strip cs
      else re_sub_strip (dropWhile (\<lambda>d. \<not> in_class d) cs))"
  by pat_completeness auto
termination
  by (relation "measure length") (auto simp: length_dropWhile_le less_Suc_eq_le)

text \<open>\<^verbatim>\<open>_norm(s)\<close>: \<^verbatim>\<open>(s or "")\<close> turns \<^verbatim>\<open>None\<close> into the empty string.\<close>

definition norm_text :: "ustring option \<Rightarrow> ustring" where
  "norm_text s = re_sub_strip (lower (case s of None \<Rightarrow> [] | Some t \<Rightarrow> t))"

text \<open>\<^verbatim>\<open>s.startswith(p)\<close> and the substring test \<^verbatim>\<open>needle in hay\<close>.\<close>

fun startswith :: "'a list \<Rightarrow> 'a list \<Rightarrow> bool" where
  "startswith s [] = True"
| "startswith [] (p # ps) = False"
| "startswith (c # cs) (p # ps) = (c = p \<and> startswith cs ps)"

fun str_in :: "'a list \<Rightarrow> 'a list \<Rightarrow> bool" where
  "str_in needle [] = (needle = [])"
| "str_in needle (c # cs) = (startswith (c # cs) needle \<or> str_in needle cs)"

text \<open>\<^verbatim>\<open>s.split(".")[0]\<close>: the part of \<^verbatim>\<open>s\<close> before its first dot.\<close>

definition split_dot_first :: "string \<Rightarrow> string" where
  "split_dot_first s = takeWhile (\<lambda>c. c \<noteq> CHR ''.'') s"

section \<open>Results of a callback\<close>

text \<open>
  A Dash callback returns a value, raises \<^verbatim>\<open>PreventUpdate\<close> (the framework then leaves
  the output as it is), or fails with a Python exception.
\<close>

datatype pyerror = IndexError

datatype 'a outcome = Returns 'a | PreventUpdate | Raises pyerror

text \<open>An output slot of a callback with several outputs: \<^verbatim>\<open>dash.no_update\<close> or a value.\<close>

datatype 'a upd = no_update | Set 'a

definition apply_upd :: "'a \<Rightarrow> 'a upd \<Rightarrow> 'a" where
  "apply_upd old u = (case u of no_update \<Rightarrow> old | Set v \<Rightarrow> v)"

text \<open>The values \<^verbatim>\<open>json.loads\<close> can put under a key.\<close>

datatype jvalue = JNull | JBool bool | JInt int | JStr string | JOther

text \<open>\<^verbatim>\<open>isinstance(v, int)\<close> holds of integers and of booleans (\<^verbatim>\<open>bool\<close> is a subclass of
  \<^verbatim>\<open>int\<close>, \<^verbatim>\<open>True\<close> counting as 1); a key that is absent gives \<^verbatim>\<open>None\<close>.\<close>

fun as_int :: "jvalue option \<Rightarrow> int option" where
  "as_int (Some (JInt i)) = Some i"
| "as_int (Some (JBool b)) = Some (if b then 1 else 0)"
| "as_int _ = None"

text \<open>\<^verbatim>\<open>xs[i]\<close>: a negative index counts from the end; outside \<^verbatim>\<open>-len(xs) .. len(xs)-1\<close>
  Python raises \<^verbatim>\<open>IndexError\<close>, here \<^const>\<open>None\<close>.\<close>

definition py_index :: "'a list \<Rightarrow> int \<Rightarrow> 'a option" where
  "py_index xs i =
     (let n = int (length xs) in
      if 0 \<le> i \<and> i < n then Some (xs ! nat i)
      else if - n \<le> i \<and> i < 0 then Some (xs ! nat (n + i))
      else None)"

section \<open>The question box: \<^verbatim>\<open>go_to_sentinel\<close>\<close>

definition SENTINEL_REDIRECT :: string where
  "SENTINEL_REDIRECT = ''https://app.causify.ai/sentinel''"

definition SUPPORTED_NORM :: ustring where
  "SUPPORTED_NORM =
     norm_text (Some (ustr ''Predict the main bearing failures in the next 2 months?''))"

text \<open>The prefix \<^verbatim>\<open>{"type":"qchip"\<close> that the callback looks for in the trigger
  (\<open>0x22\<close> is the double quote).\<close>

definition QCHIP_PREFIX :: string where
  "QCHIP_PREFIX =
     [CHR ''{'', CHR 0x22] @ ''type'' @ [CHR 0x22, CHR '':'', CHR 0x22] @ ''qchip'' @ [CHR 0x22]"

text \<open>
  \<^verbatim>\<open>go_to_sentinel(ask_clicks, chip_clicks, free_text)\<close>.  The callback context is an
  argument: \<open>triggered\<close> is the list of the \<^verbatim>\<open>prop_id\<close>s of \<^verbatim>\<open>ctx.triggered\<close>.
  \<open>json_loads\<close> is the library function \<^verbatim>\<open>json.loads\<close>, giving the object it parses as
  a map from keys to values.  \<open>ask_clicks\<close> is the click count of the submit button
  (\<^verbatim>\<open>None\<close> before the first click); \<open>chip_clicks\<close> is the list of the click counts of the
  suggestion chips, which the layout creates with \<^verbatim>\<open>n_clicks=0\<close>.
\<close>

definition go_to_sentinel ::
  "(string \<Rightarrow> string \<rightharpoonup> jvalue) \<Rightarrow> string list \<Rightarrow> int option \<Rightarrow> int list \<Rightarrow> ustring option
     \<Rightarrow> string outcome" where
  "go_to_sentinel json_loads triggered ask_clicks chip_clicks free_text =
     (if triggered = [] then PreventUpdate
      else
        let trig = split_dot_first (hd triggered) in
        if trig = ''qa-submit'' then
          (if ask_clicks = None \<or> ask_clicks = Some 0 then PreventUpdate
           else
             let qn = norm_text free_text in
             if qn = SUPPORTED_NORM then Returns SENTINEL_REDIRECT
             else if str_in (ustr ''predict'') qn
                     \<and> (str_in (ustr ''mainbearing'') qn \<or> str_in (ustr ''mb'') qn)
                     \<and> (str_in (ustr ''next2months'') qn \<or> str_in (ustr ''nexttwomonths'') qn
                          \<or> str_in (ustr ''next60days'') qn)
             then Returns SENTINEL_REDIRECT
             else PreventUpdate)
        else if startswith trig QCHIP_PREFIX then
          (let chip = json_loads trig; idx = chip ''index'' in
           case as_int idx of
             None \<Rightarrow> PreventUpdate
           | Some i \<Rightarrow>
               if chip_clicks = [] \<or> int (length chip_clicks) \<le> i then PreventUpdate
               else
                 (case py_index chip_clicks i of
                    None \<Rightarrow> Raises IndexError
                  | Some n \<Rightarrow>
                      if n \<le> 0 then PreventUpdate
                      else if i = 0 then Returns SENTINEL_REDIRECT
                      else PreventUpdate))
        else PreventUpdate)"

section \<open>The scenario flow: \<^verbatim>\<open>start_flow\<close>\<close>

text \<open>What a callback can put into a \<^verbatim>\<open>children\<close> property here: a string, or a
  \<^verbatim>\<open>html.Div\<close> of \<^verbatim>\<open>html.Span\<close>s, each a text with its style entries.\<close>

datatype html = Span string "(string \<times> string) list" | Div "html list"

datatype children = Text string | Html html

text \<open>The two pictographs and the dash of the messages, as UTF-8 bytes.\<close>

definition WARNING_SIGN :: string where
  "WARNING_SIGN = [CHR 0xE2, CHR 0x9A, CHR 0xA0, CHR 0xEF, CHR 0xB8, CHR 0x8F]"

definition INFORMATION_SIGN :: string where
  "INFORMATION_SIGN = [CHR 0xE2, CHR 0x84, CHR 0xB9, CHR 0xEF, CHR 0xB8, CHR 0x8F]"

definition EN_DASH :: string where
  "EN_DASH = [CHR 0xE2, CHR 0x80, CHR 0x93]"

definition unsupported_message :: html where
  "unsupported_message =
     Div [Span (WARNING_SIGN @ '' '') [(''fontSize'', ''20px'')],
          Span ''Wind turbines scenario is currently available. Other scenarios coming soon!'' []]"

definition empty_message :: html where
  "empty_message =
     Div [Span (INFORMATION_SIGN @ '' '') [(''fontSize'', ''20px'')],
          Span ''Please select a scenario to continue'' []]"

text \<open>
  \<^verbatim>\<open>start_flow(go_clicks, settings_clicks, search_value)\<close>, with the \<^verbatim>\<open>prop_id\<close>s of
  \<^verbatim>\<open>callback_context.triggered\<close> as the argument \<open>triggered_ids\<close>.  The outputs are the
  stage, the loader status and the error display.  A string is true in a condition when it
  is neither \<^verbatim>\<open>None\<close> nor empty.
\<close>

definition start_flow ::
  "string list \<Rightarrow> int option \<Rightarrow> int option \<Rightarrow> ustring option
     \<Rightarrow> string upd \<times> children upd \<times> children upd" where
  "start_flow triggered_ids go_clicks settings_clicks search_value =
     (let triggered = (if triggered_ids \<noteq> [] then Some (split_dot_first (hd triggered_ids))
                       else None) in
      if triggered = Some ''settings'' then (Set ''select'', Set (Text []), Set (Text []))
      else if triggered = Some ''go'' then
        (case search_value of
           Some v \<Rightarrow>
             if v \<noteq> [] \<and> str_in (ustr ''wind'') (lower v)
             then (Set ''loading'',
                   Set (Text (''Initializing turbine sensors A0'' @ EN_DASH @ ''A71...'')),
                   Set (Text []))
             else if v \<noteq> [] then (no_update, no_update, Set (Html unsupported_message))
             else (no_update, no_update, Set (Html empty_message))
         | None \<Rightarrow> (no_update, no_update, Set (Html empty_message)))
      else (no_update, no_update, no_update))"

text \<open>\<^verbatim>\<open>auto_transition(current_stage)\<close>: the stage after the loading screen.\<close>

definition auto_transition :: "string \<Rightarrow> string upd" where
  "auto_transition current_stage = (if current_stage = ''loading'' then Set ''kg'' else no_update)"

section \<open>The catalog of the knowledge graph\<close>

text \<open>
  A node is a Python dictionary with the keys \<^verbatim>\<open>id\<close>, \<^verbatim>\<open>label\<close> and \<^verbatim>\<open>classes\<close>; the graph
  callback adds the keys \<^verbatim>\<open>bgcolor\<close> and \<^verbatim>\<open>bordercolor\<close>, absent (\<^const>\<open>None\<close>) until then.
  An edge is the \<^verbatim>\<open>data\<close> dictionary that \<^verbatim>\<open>link\<close> builds.  Weights are Python floats; the
  model computes with exact rationals.
\<close>

record node =
  nid :: string
  label :: string
  classes :: string
  bgcolor :: "string option"
  bordercolor :: "string option"

record edge =
  source :: string
  target :: string
  weight :: rat

definition mk_node :: "string \<Rightarrow> string \<Rightarrow> string \<Rightarrow> node" where
  "mk_node i l c = \<lparr>nid = i, label = l, classes = c, bgcolor = None, bordercolor = None\<rparr>"

definition link :: "string \<Rightarrow> string \<Rightarrow> rat \<Rightarrow> edge" where
  "link src tgt w = \<lparr>source = src, target = tgt, weight = w\<rparr>"

text \<open>The module-level lists are the mutable state of the process: the catalog.\<close>

record catalog =
  RAW_FEATURES :: "node list"
  PHYSICS_FEATURES :: "node list"
  STATISTICAL_FEATURES :: "node list"
  ANOMALY_FEATURES :: "node list"
  OUTCOMES :: "node list"
  BASE_EDGES :: "edge list"

text \<open>The lists as the module defines them at import time.\<close>

definition RAW_FEATURES_init :: "node list" where
  "RAW_FEATURES_init =
     [mk_node ''active_power'' ''Active Power'' ''raw'',
      mk_node ''main_bearing_temperature'' ''Main Bearing Temp'' ''raw'',
      mk_node ''rotor_speed'' ''Rotor Speed'' ''raw'',
      mk_node ''temperature_reading'' ''Ambient Temp'' ''raw'',
      mk_node ''anemometer_reading'' ''Wind Speed'' ''raw'']"

definition PHYSICS_FEATURES_init :: "node list" where
  "PHYSICS_FEATURES_init =
     [mk_node ''power_efficiency'' ''Power Efficiency'' ''physics'',
      mk_node ''rotor_response'' ''Rotor Response'' ''physics'',
      mk_node ''temperature_anomaly'' ''Temp Anomaly'' ''physics'',
      mk_node ''main_bearing_consecutive_high'' ''MBT Consecutive High'' ''physics'',
      mk_node ''mbt_low_10d'' ''MBT Low 10d'' ''physics'',
      mk_node ''rotor_low_count_10d'' ''Rotor Low 10d'' ''physics'',
      mk_node ''rotor_low_count_20d'' ''Rotor Low 20d'' ''physics'',
      mk_node ''rotor_zero'' ''Rotor Zero Events'' ''physics'',
      mk_node ''rotor_and_mbt_low_10d'' ''Rotor & MBT Low'' ''physics'']"

definition STATISTICAL_FEATURES_init :: "node list" where
  "STATISTICAL_FEATURES_init =
     [mk_node ''active_power_moment'' ''Power Moment'' ''statistical'',
      mk_node ''main_bearing_temperature_moment'' ''MBT Moment'' ''statistical'',
      mk_node ''rotor_speed_moment'' ''Rotor Moment'' ''statistical'',
      mk_node ''active_power_z_score'' ''Power Z-Score'' ''statistical'',
      mk_node ''main_bearing_temperature_z_score'' ''MBT Z-Score'' ''statistical'',
      mk_node ''rotor_speed_z_score'' ''Rotor Z-Score'' ''statistical'',
      mk_node ''active_power_volatility_10d'' ''Power Volatility'' ''statistical'',
      mk_node ''main_bearing_temperature_volatility_10d'' ''MBT Volatility'' ''statistical'',
      mk_node ''rotor_speed_volatility_10d'' ''Rotor Volatility'' ''statistical'',
      mk_node ''active_power_deriv'' ''Power Derivative'' ''statistical'',
      mk_node ''main_bearing_temperature_deriv'' ''MBT Derivative'' ''statistical'',
      mk_node ''rotor_speed_deriv'' ''Rotor Derivative'' ''statistical'']"

definition ANOMALY_FEATURES_init :: "node list" where
  "ANOMALY_FEATURES_init =
     [mk_node ''main_bearing_below_ambient_flag'' ''MBT Below Ambient'' ''anomaly'',
      mk_node ''volatility_flag'' ''High Volatility Flag'' ''anomaly'',
      mk_node ''is_constant'' ''Constant Reading'' ''anomaly'']"

definition OUTCOMES_init :: "node list" where
  "OUTCOMES_init =
     [mk_node ''is_approaching_outage'' ''Approaching Outage'' ''outcome'',
      mk_node ''is_within_outage'' ''Within Outage'' ''outcome'',
      mk_node ''failure_risk'' ''Failure Risk'' ''outcome'',
      mk_node ''maintenance_required'' ''Maintenance Required'' ''outcome'']"

definition BASE_EDGES_init :: "edge list" where
  "BASE_EDGES_init =
     [link ''active_power'' ''power_efficiency'' (9 / 10),
      link ''anemometer_reading'' ''power_efficiency'' (9 / 10),
      link ''rotor_speed'' ''rotor_response'' (9 / 10),
      link ''anemometer_reading'' ''rotor_response'' (8 / 10),
      link ''main_bearing_temperature'' ''temperature_anomaly'' (9 / 10),
      link ''temperature_reading'' ''temperature_anomaly'' (8 / 10),
      link ''main_bearing_temperature'' ''main_bearing_consecutive_high'' (9 / 10),
      link ''main_bearing_temperature'' ''mbt_low_10d'' (8 / 10),
      link ''rotor_speed'' ''rotor_low_count_10d'' (9 / 10),
      link ''rotor_speed'' ''rotor_low_count_20d'' (9 / 10),
      link ''rotor_speed'' ''rotor_zero'' (9 / 10),
      link ''rotor_speed'' ''rotor_and_mbt_low_10d'' (7 / 10),
      link ''main_bearing_temperature'' ''rotor_and_mbt_low_10d'' (7 / 10),
      link ''active_power'' ''active_power_moment'' (9 / 10),
      link ''active_power'' ''active_power_z_score'' (8 / 10),
      link ''active_power'' ''active_power_volatility_10d'' (8 / 10),
      link ''active_power'' ''active_power_deriv'' (9 / 10),
      link ''main_bearing_temperature'' ''main_bearing_temperature_moment'' (9 / 10),
      link ''main_bearing_temperature'' ''main_bearing_temperature_z_score'' (8 / 10),
      link ''main_bearing_temperature'' ''main_bearing_temperature_volatility_10d'' (8 / 10),
      link ''main_bearing_temperature'' ''main_bearing_temperature_deriv'' (9 / 10),
      link ''rotor_speed'' ''rotor_speed_moment'' (9 / 10),
      link ''rotor_speed'' ''rotor_speed_z_score'' (8 / 10),
      link ''rotor_speed'' ''rotor_speed_volatility_10d'' (8 / 10),
      link ''rotor_speed'' ''rotor_speed_deriv'' (9 / 10),
      link ''temperature_anomaly'' ''main_bearing_below_ambient_flag'' (8 / 10),
      link ''rotor_zero'' ''is_constant'' (7 / 10),
      link ''active_power_volatility_10d'' ''volatility_flag'' (8 / 10),
      link ''main_bearing_temperature_volatility_10d'' ''volatility_flag'' (8 / 10),
      link ''rotor_speed_volatility_10d'' ''volatility_flag'' (8 / 10),
      link ''power_efficiency'' ''failure_risk'' (8 / 10),
      link ''temperature_anomaly'' ''failure_risk'' (9 / 10),
      link ''main_bearing_consecutive_high'' ''failure_risk'' (9 / 10),
      link ''main_bearing_temperature_z_score'' ''failure_risk'' (8 / 10),
      link ''rotor_speed_z_score'' ''failure_risk'' (7 / 10),
      link ''volatility_flag'' ''failure_risk'' (7 / 10),
      link ''rotor_zero'' ''is_within_outage'' (9 / 10),
      link ''is_constant'' ''is_within_outage'' (8 / 10),
      link ''mbt_low_10d'' ''is_approaching_outage'' (7 / 10),
      link ''rotor_low_count_10d'' ''is_approaching_outage'' (8 / 10),
      link ''rotor_and_mbt_low_10d'' ''is_approaching_outage'' (9 / 10),
      link ''main_bearing_below_ambient_flag'' ''maintenance_required'' (8 / 10),
      link ''main_bearing_consecutive_high'' ''maintenance_required'' (9 / 10),
      link ''active_power_deriv'' ''is_approaching_outage'' (6 / 10),
      link ''main_bearing_temperature_deriv'' ''failure_risk'' (7 / 10),
      link ''power_efficiency'' ''rotor_response'' (6 / 10),
      link ''temperature_anomaly'' ''main_bearing_consecutive_high'' (7 / 10),
      link ''active_power_z_score'' ''volatility_flag'' (6 / 10),
      link ''rotor_speed_moment'' ''rotor_low_count_10d'' (5 / 10)]"

definition CATALOG :: catalog where
  "CATALOG =
     \<lparr>RAW_FEATURES = RAW_FEATURES_init, PHYSICS_FEATURES = PHYSICS_FEATURES_init,
      STATISTICAL_FEATURES = STATISTICAL_FEATURES_init,
      ANOMALY_FEATURES = ANOMALY_FEATURES_init, OUTCOMES = OUTCOMES_init,
      BASE_EDGES = BASE_EDGES_init\<rparr>"

section \<open>The graph builder: \<^verbatim>\<open>update_elements\<close>\<close>

text \<open>An element handed to the renderer: \<^verbatim>\<open>as_nodes\<close> wraps a node as
  \<^verbatim>\<open>{"data": n, "classes": n.get("classes", "")}\<close>; an edge is passed as it is.\<close>

datatype element = NodeElement node string | EdgeElement edge

definition as_nodes :: "node list \<Rightarrow> element list" where
  "as_nodes arr = map (\<lambda>n. NodeElement n (classes n)) arr"

text \<open>The loop \<^verbatim>\<open>for node in L: node["bgcolor"] = bg; node["bordercolor"] = bd\<close>.\<close>

definition paint :: "string \<Rightarrow> string \<Rightarrow> node list \<Rightarrow> node list" where
  "paint bg bd L = map (\<lambda>n. n\<lparr>bgcolor := Some bg, bordercolor := Some bd\<rparr>) L"

text \<open>\<^verbatim>\<open>round(x, 3)\<close>: to the nearest multiple of 1/1000, a tie going to the even one.\<close>

definition round_half_even :: "rat \<Rightarrow> int" where
  "round_half_even x =
     (let f = \<lfloor>x\<rfloor>; d = x - of_int f in
      if d < 1 / 2 then f else if 1 / 2 < d then f + 1 else if even f then f else f + 1)"

definition round3 :: "rat \<Rightarrow> rat" where
  "round3 x = of_int (round_half_even (x * 1000)) / 1000"

text \<open>
  The loop \<^verbatim>\<open>for e in edges: e["data"]["weight"] = round(e["data"].get("weight", 0.5) *
  random.uniform(0.9, 1.1), 3)\<close>.  The list \<^verbatim>\<open>edges\<close> holds the very dictionaries of
  \<^verbatim>\<open>BASE_EDGES\<close>, so it is a list of positions in \<^verbatim>\<open>BASE_EDGES\<close> and each assignment writes
  into \<^verbatim>\<open>BASE_EDGES\<close>.  \<open>uniform k\<close> is what the \<open>k\<close>-th call of \<^verbatim>\<open>random.uniform(0.9, 1.1)\<close>
  of this invocation returns.  Every edge has the key \<^verbatim>\<open>weight\<close>, so the default 0.5 is
  never taken.
\<close>

fun vary_weights :: "(nat \<Rightarrow> rat) \<Rightarrow> nat \<Rightarrow> nat list \<Rightarrow> edge list \<Rightarrow> edge list" where
  "vary_weights uniform k [] es = es"
| "vary_weights uniform k (i # edges) es =
     vary_weights uniform (Suc k) edges
       (es[i := (es ! i)\<lparr>weight := round3 (weight (es ! i) * uniform k)\<rparr>])"

text \<open>\<^verbatim>\<open>set(layers or [])\<close>: the tokens of the checklist value, none when it is \<^verbatim>\<open>None\<close>.\<close>

definition toggles :: "string list option \<Rightarrow> string set" where
  "toggles layers_value = set (case layers_value of None \<Rightarrow> [] | Some l \<Rightarrow> l)"

text \<open>
  \<^verbatim>\<open>update_elements(layers)\<close> returns the elements and leaves the catalog as its second
  component.  \<open>raw\<close>, \<open>outcomes\<close>, \<open>physics\<close>, \<open>statistical\<close> and \<open>anomaly\<close> are the five
  module-level node lists as the colouring loops leave them.  The list \<^verbatim>\<open>nodes\<close> holds the
  very dictionaries of these lists, so the colours written by the loops are in the nodes
  that are returned, whether the loop runs before or after the list is appended to
  \<^verbatim>\<open>nodes\<close>.  \<open>base\<close> is \<^verbatim>\<open>BASE_EDGES\<close> as the weight loop leaves it.
\<close>

definition update_elements ::
  "string list option \<Rightarrow> (nat \<Rightarrow> rat) \<Rightarrow> catalog \<Rightarrow> element list \<times> catalog" where
  "update_elements layers_value uniform c =
     (let layers = toggles layers_value;
          raw = paint ''#3b82f6'' ''#2563eb'' (RAW_FEATURES c);
          outcomes = paint ''#f59e0b'' ''#d97706'' (OUTCOMES c);
          nodes = raw @ outcomes;
          physics = (if ''physics'' \<in> layers
                     then paint ''#10b981'' ''#059669'' (PHYSICS_FEATURES c)
                     else PHYSICS_FEATURES c);
          nodes = (if ''physics'' \<in> layers then nodes @ physics else nodes);
          statistical = (if ''statistical'' \<in> layers
                         then paint ''#8b5cf6'' ''#7c3aed'' (STATISTICAL_FEATURES c)
                         else STATISTICAL_FEATURES c);
          nodes = (if ''statistical'' \<in> layers then nodes @ statistical else nodes);
          anomaly = (if ''anomaly'' \<in> layers
                     then paint ''#ef4444'' ''#dc2626'' (ANOMALY_FEATURES c)
                     else ANOMALY_FEATURES c);
          nodes = (if ''anomaly'' \<in> layers then nodes @ anomaly else nodes);
          present = set (map nid nodes);
          edges = filter (\<lambda>i. source (BASE_EDGES c ! i) \<in> present
                               \<and> target (BASE_EDGES c ! i) \<in> present)
                    [0 ..< length (BASE_EDGES c)];
          base = vary_weights uniform 0 edges (BASE_EDGES c)
      in (as_nodes nodes @ map (\<lambda>i. EdgeElement (base ! i)) edges,
          \<lparr>RAW_FEATURES = raw, PHYSICS_FEATURES = physics, STATISTICAL_FEATURES = statistical,
           ANOMALY_FEATURES = anomaly, OUTCOMES = outcomes, BASE_EDGES = base\<rparr>))"

text \<open>The catalog after a sequence of invocations, each with its toggles and its draws.\<close>

fun after_calls :: "(string list option \<times> (nat \<Rightarrow> rat)) list \<Rightarrow> catalog \<Rightarrow> catalog" where
  "after_calls [] c = c"
| "after_calls ((layers_value, uniform) # calls) c =
     after_calls calls (snd (update_elements layers_value uniform c))"

text \<open>The nodes and the edges among the elements returned.\<close>

fun out_nodes :: "element list \<Rightarrow> node list" where
  "out_nodes [] = []"
| "out_nodes (NodeElement n cl # els) = n # out_nodes els"
| "out_nodes (EdgeElement e # els) = out_nodes els"

fun out_edges :: "element list \<Rightarrow> edge list" where
  "out_edges [] = []"
| "out_edges (NodeElement n cl # els) = out_edges els"
| "out_edges (EdgeElement e # els) = e # out_edges els"

section \<open>Notions of the specification\<close>

text \<open>An ASCII letter or digit, of either case, and an ASCII character in lower case.\<close>

definition ascii_alnum :: "int \<Rightarrow> bool" where
  "ascii_alnum c = ((48 \<le> c \<and> c \<le> 57) \<or> (65 \<le> c \<and> c \<le> 90) \<or> (97 \<le> c \<and> c \<le> 122))"

definition ascii_lower :: "int \<Rightarrow> int" where
  "ascii_lower c = (if 65 \<le> c \<and> c \<le> 90 then c + 32 else c)"

text \<open>The text read with the Kelvin sign U+212A as the letter K and the dotted capital
  U+0130 as the letter I.\<close>

definition ascii_fold :: "int \<Rightarrow> int" where
  "ascii_fold c = (if c = 0x212A then 0x4B else if c = 0x130 then 0x49 else c)"

text \<open>\<open>hay\<close> contains \<open>needle\<close> as a substring.\<close>

definition contains :: "'a list \<Rightarrow> 'a list \<Rightarrow> bool" where
  "contains hay needle = (\<exists>before after. hay = before @ needle @ after)"

text \<open>\<open>hay\<close> contains \<open>needle\<close> when case is ignored: a substring of \<open>hay\<close> is
  \<open>needle\<close> once lower-cased (\<open>needle\<close> is in lower case already).\<close>

definition contains_ci :: "ustring \<Rightarrow> ustring \<Rightarrow> bool" where
  "contains_ci hay needle = (\<exists>w. contains hay w \<and> lower w = needle)"

text \<open>What identifies a node and an edge of the catalog: a node's id, label and category,
  an edge's two endpoints.\<close>

definition core :: "node \<Rightarrow> string \<times> string \<times> string" where
  "core n = (nid n, label n, classes n)"

definition ends :: "edge \<Rightarrow> string \<times> string" where
  "ends e = (source e, target e)"

text \<open>A random source whose every draw is \<open>r\<close>.\<close>

definition constant_draw :: "rat \<Rightarrow> nat \<Rightarrow> rat" where
  "constant_draw r k = r"

text \<open>For the proofs: the ids of the nodes shown under the toggles \<open>T\<close>, and the positions
  of the edges of the catalog with both endpoints among them.\<close>

definition present_ids :: "string set \<Rightarrow> catalog \<Rightarrow> string set" where
  "present_ids T c =
     set (map nid (RAW_FEATURES c @ OUTCOMES c
       @ (if ''physics'' \<in> T then PHYSICS_FEATURES c else [])
       @ (if ''statistical'' \<in> T then STATISTICAL_FEATURES c else [])
       @ (if ''anomaly'' \<in> T then ANOMALY_FEATURES c else [])))"

definition kept :: "string set \<Rightarrow> catalog \<Rightarrow> nat list" where
  "kept T c =
     filter (\<lambda>i. source (BASE_EDGES c ! i) \<in> present_ids T c
                  \<and> target (BASE_EDGES c ! i) \<in> present_ids T c)
       [0 ..< length (BASE_EDGES c)]"

text \<open>The checklist value without the tokens that name no optional category.\<close>

definition optional :: "string list option \<Rightarrow> string list option" where
  "optional layers_value =
     Some (filter (\<lambda>t. t \<in> {''physics'', ''statistical'', ''anomaly''})
       (case layers_value of None \<Rightarrow> [] | Some l \<Rightarrow> l))"

section \<open>Properties of the string operations\<close>

lemma startswith_prefix: "startswith s p \<longleftrightarrow> prefix p s"
  by (induction s p rule: startswith.induct) auto

lemma str_in_sublist: "str_in needle hay \<longleftrightarrow> sublist needle hay"
  by (induction hay) (simp_all add: startswith_prefix sublist_Cons_right)

lemma str_in_contains: "str_in needle hay \<longleftrightarrow> contains hay needle"
  by (simp add: str_in_sublist sublist_def contains_def)

lemma filter_dropWhile_not: "filter P (dropWhile (\<lambda>x. \<not> P x) xs) = filter P xs"
  by (induction xs) simp_all

lemma re_sub_strip_filter: "re_sub_strip s = filter in_class s"
  by (induction s rule: re_sub_strip.induct) (simp_all add: filter_dropWhile_not)

lemma norm_text_Some: "norm_text (Some s) = filter in_class (lower s)"
  by (simp add: norm_text_def re_sub_strip_filter)

lemma lower_append: "lower (a @ b) = lower a @ lower b"
  by (simp add: lower_def)

lemma kept_of_lower_char:
  "filter in_class (lower_char c)
     = (if ascii_alnum (ascii_fold c) then [ascii_lower (ascii_fold c)] else [])"
  by (simp add: lower_char_def in_class_def ascii_alnum_def ascii_fold_def ascii_lower_def)

lemma kept_of_lower:
  "filter in_class (lower s) = map ascii_lower (filter ascii_alnum (map ascii_fold s))"
proof (induction s)
  case Nil
  show ?case by (simp add: lower_def)
next
  case (Cons c s)
  have "filter in_class (lower (c # s)) = filter in_class (lower_char c) @ filter in_class (lower s)"
    by (simp add: lower_def)
  then show ?case
    by (simp add: Cons.IH kept_of_lower_char)
qed

lemma ascii_fold_plain: "c \<noteq> 0x130 \<Longrightarrow> c \<noteq> 0x212A \<Longrightarrow> ascii_fold c = c"
  by (simp add: ascii_fold_def)

text \<open>
  Claim C9, amended.  \<^verbatim>\<open>_norm\<close> gives the lower-cased text without the characters outside
  \<^verbatim>\<open>[a-z0-9]\<close>.  That is the ASCII letters and digits, in their order and in lower case, of
  the text read with the Kelvin sign U+212A as \<^verbatim>\<open>K\<close> and the capital I with a dot above
  U+0130 as \<^verbatim>\<open>I\<close>: lower-casing turns the first into \<^verbatim>\<open>k\<close> and the second into \<^verbatim>\<open>i\<close> and a
  combining dot, so a letter of each stays.  For a text with neither of the two it is the
  ASCII letters and digits of the text itself, in lower case, every other character removed.
  \<^verbatim>\<open>None\<close> and the empty string give the empty string.
\<close>

theorem norm_text_alnum_lowered:
  "norm_text (Some s) = filter in_class (lower s)
   \<and> norm_text (Some s) = map ascii_lower (filter ascii_alnum (map ascii_fold s))
   \<and> ((\<forall>c \<in> set s. c \<noteq> 0x130 \<and> c \<noteq> 0x212A) \<longrightarrow>
        norm_text (Some s) = map ascii_lower (filter ascii_alnum s))
   \<and> norm_text None = [] \<and> norm_text (Some []) = []"
proof -
  have a: "norm_text (Some s) = map ascii_lower (filter ascii_alnum (map ascii_fold s))"
    by (simp only: norm_text_Some kept_of_lower)
  have "map ascii_fold s = s" if "\<forall>c \<in> set s. c \<noteq> 0x130 \<and> c \<noteq> 0x212A"
    by (rule map_idI) (use that in \<open>simp add: ascii_fold_plain\<close>)
  with a have b: "(\<forall>c \<in> set s. c \<noteq> 0x130 \<and> c \<noteq> 0x212A) \<longrightarrow>
        norm_text (Some s) = map ascii_lower (filter ascii_alnum s)"
    by simp
  have c: "norm_text None = []" "norm_text (Some []) = []"
    by (simp_all add: norm_text_def lower_def)
  from a b c norm_text_Some [of s] show ?thesis
    by blast
qed

text \<open>Claim C9, amended, at the string \<^verbatim>\<open>MB: next 60-days?\<close>.\<close>

theorem norm_text_alnum_lowered_witness:
  "0x130 \<notin> set (ustr ''MB: next 60-days?'')
   \<and> 0x212A \<notin> set (ustr ''MB: next 60-days?'')
   \<and> norm_text (Some (ustr ''MB: next 60-days?'')) = ustr ''mbnext60days''"
proof -
  have h: "0x130 \<notin> set (ustr ''MB: next 60-days?'')"
    "0x212A \<notin> set (ustr ''MB: next 60-days?'')"
    by code_simp+
  have e: "map ascii_lower (filter ascii_alnum (ustr ''MB: next 60-days?''))
           = ustr ''mbnext60days''"
    by code_simp
  from norm_text_alnum_lowered [of "ustr ''MB: next 60-days?''"] h
  have "norm_text (Some (ustr ''MB: next 60-days?''))
        = map ascii_lower (filter ascii_alnum (ustr ''MB: next 60-days?''))"
    by blast
  with h e show ?thesis
    by simp
qed

text \<open>
  Claim C9 as stated fails at the text that is the Kelvin sign alone, and at the text that is
  the capital I with a dot above alone: neither holds an ASCII letter or digit, and \<^verbatim>\<open>_norm\<close>
  gives \<^verbatim>\<open>k\<close> for the first and \<^verbatim>\<open>i\<close> for the second.
\<close>

theorem kelvin_sign_kept_as_k:
  "norm_text (Some [0x212A]) = ustr ''k''
   \<and> map ascii_lower (filter ascii_alnum [0x212A]) = []
   \<and> norm_text (Some [0x130]) = ustr ''i''
   \<and> map ascii_lower (filter ascii_alnum [0x130]) = []"
  by code_simp

lemma lower_in_class: "\<forall>c \<in> set xs. in_class c \<Longrightarrow> lower xs = xs"
  by (induction xs) (auto simp add: lower_def lower_char_def in_class_def)

lemma norm_text_fixed: "norm_text (Some (norm_text s)) = norm_text s"
proof -
  obtain t where t: "norm_text s = filter in_class t"
    by (cases s) (simp_all add: norm_text_def re_sub_strip_filter)
  have "lower (filter in_class t) = filter in_class t"
    by (rule lower_in_class) simp
  then show ?thesis
    by (simp add: t norm_text_Some)
qed

text \<open>
  Claim C10.  \<^verbatim>\<open>_norm\<close> is idempotent, and the answer of the question box depends on the
  submitted text only through its canonical form: the canonical form can be submitted in
  place of the text, and two texts with the same canonical form get the same answer.
\<close>

theorem norm_text_idempotent:
  "norm_text (Some (norm_text s)) = norm_text s
   \<and> go_to_sentinel json_loads triggered ask_clicks chip_clicks (Some (norm_text s))
       = go_to_sentinel json_loads triggered ask_clicks chip_clicks s
   \<and> (norm_text s = norm_text t \<longrightarrow>
        go_to_sentinel json_loads triggered ask_clicks chip_clicks s
        = go_to_sentinel json_loads triggered ask_clicks chip_clicks t)"
proof -
  have via: "go_to_sentinel json_loads triggered ask_clicks chip_clicks (Some (norm_text u))
             = go_to_sentinel json_loads triggered ask_clicks chip_clicks u" for u
    by (simp only: go_to_sentinel_def norm_text_fixed)
  have "go_to_sentinel json_loads triggered ask_clicks chip_clicks s
        = go_to_sentinel json_loads triggered ask_clicks chip_clicks t"
    if "norm_text s = norm_text t"
    using via [of s] via [of t] that by simp
  then show ?thesis
    using via [of s] norm_text_fixed [of s] by blast
qed

text \<open>Claim C10 at two texts with the canonical form \<^verbatim>\<open>predictmb\<close>.\<close>

theorem norm_text_idempotent_witness:
  "norm_text (Some (ustr ''Predict MB!'')) = norm_text (Some (ustr ''predictmb''))
   \<and> go_to_sentinel (\<lambda>_. Map.empty) [''qa-submit.n_clicks''] (Some 1) []
        (Some (ustr ''Predict MB!''))
     = go_to_sentinel (\<lambda>_. Map.empty) [''qa-submit.n_clicks''] (Some 1) []
        (Some (ustr ''predictmb''))"
proof -
  have h: "norm_text (Some (ustr ''Predict MB!'')) = norm_text (Some (ustr ''predictmb''))"
    by code_simp
  show ?thesis
    using h norm_text_idempotent [of "Some (ustr ''Predict MB!'')" "\<lambda>_. Map.empty"
        "[''qa-submit.n_clicks'']" "Some 1" "[]" "Some (ustr ''predictmb'')"]
    by simp
qed

text \<open>
  Claim C2, evaluated.  The reference question and its misspelt variant (\<^verbatim>\<open>beraing\<close>) have
  different canonical forms: the letters \<^verbatim>\<open>ar\<close> are swapped, and \<^verbatim>\<open>_norm\<close> only removes
  characters.  Submitting the reference question redirects; submitting the misspelt one
  raises \<^verbatim>\<open>PreventUpdate\<close>, since its canonical form contains neither \<^verbatim>\<open>mainbearing\<close> nor
  \<^verbatim>\<open>mb\<close>.
\<close>

theorem typo_question_not_matched:
  "norm_text (Some (ustr ''Predict the main bearing failures in the next 2 months?''))
     = ustr ''predictthemainbearingfailuresinthenext2months''
   \<and> norm_text (Some (ustr ''predict the main beraing failures in the next 2 months?''))
     = ustr ''predictthemainberaingfailuresinthenext2months''
   \<and> go_to_sentinel (\<lambda>_. Map.empty) [''qa-submit.n_clicks''] (Some 1) [0, 0, 0, 0]
        (Some (ustr ''Predict the main bearing failures in the next 2 months?''))
     = Returns SENTINEL_REDIRECT
   \<and> go_to_sentinel (\<lambda>_. Map.empty) [''qa-submit.n_clicks''] (Some 1) [0, 0, 0, 0]
        (Some (ustr ''predict the main beraing failures in the next 2 months?''))
     = PreventUpdate"
  by code_simp

section \<open>Properties of the question box\<close>

lemma SUPPORTED_NORM_value:
  "SUPPORTED_NORM = ustr ''predictthemainbearingfailuresinthenext2months''"
  by code_simp

lemma split_dot_first_qa_submit: "split_dot_first ''qa-submit.n_clicks'' = ''qa-submit''"
  by (simp add: split_dot_first_def)

lemma split_dot_first_go: "split_dot_first ''go.n_clicks'' = ''go''"
  by (simp add: split_dot_first_def)

lemma qa_submit_branch:
  assumes "n \<noteq> 0"
  shows "go_to_sentinel json_loads (''qa-submit.n_clicks'' # others) (Some n) chip_clicks text =
     (if norm_text text = SUPPORTED_NORM
         \<or> (str_in (ustr ''predict'') (norm_text text)
             \<and> (str_in (ustr ''mainbearing'') (norm_text text)
                  \<or> str_in (ustr ''mb'') (norm_text text))
             \<and> (str_in (ustr ''next2months'') (norm_text text)
                  \<or> str_in (ustr ''nexttwomonths'') (norm_text text)
                  \<or> str_in (ustr ''next60days'') (norm_text text)))
      then Returns SENTINEL_REDIRECT else PreventUpdate)"
  using assms
  by (simp only: go_to_sentinel_def list.sel split_dot_first_qa_submit Let_def) simp

text \<open>
  Claim C6.  A question submitted with the Ask button (the button has been clicked, so its
  count is not zero) redirects exactly when its canonical form equals the canonical form of
  the reference question, or contains \<^verbatim>\<open>predict\<close>, and \<^verbatim>\<open>mainbearing\<close> or \<^verbatim>\<open>mb\<close>, and one of
  \<^verbatim>\<open>next2months\<close>, \<^verbatim>\<open>nexttwomonths\<close>, \<^verbatim>\<open>next60days\<close>; otherwise it raises \<^verbatim>\<open>PreventUpdate\<close>.
  The empty text and \<^verbatim>\<open>None\<close> do not redirect; \<^verbatim>\<open>predict mb next 60 days\<close> does.
\<close>

theorem supported_query_matched:
  assumes "n \<noteq> 0"
  shows "(go_to_sentinel json_loads (''qa-submit.n_clicks'' # others) (Some n) chip_clicks text
            = Returns SENTINEL_REDIRECT
          \<longleftrightarrow>
            norm_text text
              = norm_text (Some (ustr ''Predict the main bearing failures in the next 2 months?''))
            \<or> (contains (norm_text text) (ustr ''predict'')
                \<and> (contains (norm_text text) (ustr ''mainbearing'')
                     \<or> contains (norm_text text) (ustr ''mb''))
                \<and> (contains (norm_text text) (ustr ''next2months'')
                     \<or> contains (norm_text text) (ustr ''nexttwomonths'')
                     \<or> contains (norm_text text) (ustr ''next60days''))))
       \<and> (go_to_sentinel json_loads (''qa-submit.n_clicks'' # others) (Some n) chip_clicks text
            \<noteq> Returns SENTINEL_REDIRECT
          \<longrightarrow> go_to_sentinel json_loads (''qa-submit.n_clicks'' # others) (Some n) chip_clicks text
            = PreventUpdate)
       \<and> go_to_sentinel json_loads (''qa-submit.n_clicks'' # others) (Some n) chip_clicks (Some [])
            = PreventUpdate
       \<and> go_to_sentinel json_loads (''qa-submit.n_clicks'' # others) (Some n) chip_clicks None
            = PreventUpdate
       \<and> go_to_sentinel json_loads (''qa-submit.n_clicks'' # others) (Some n) chip_clicks
            (Some (ustr ''predict mb next 60 days'')) = Returns SENTINEL_REDIRECT"
proof -
  have empty: "norm_text None = []" "norm_text (Some []) = []"
    by (simp_all add: norm_text_def lower_def)
  have example: "str_in (ustr ''predict'') (norm_text (Some (ustr ''predict mb next 60 days'')))"
    "str_in (ustr ''mb'') (norm_text (Some (ustr ''predict mb next 60 days'')))"
    "str_in (ustr ''next60days'') (norm_text (Some (ustr ''predict mb next 60 days'')))"
    by code_simp+
  have a: "go_to_sentinel json_loads (''qa-submit.n_clicks'' # others) (Some n) chip_clicks (Some [])
            = PreventUpdate"
    by (simp add: qa_submit_branch [OF assms] empty SUPPORTED_NORM_value ustr_def)
  have b: "go_to_sentinel json_loads (''qa-submit.n_clicks'' # others) (Some n) chip_clicks None
            = PreventUpdate"
    by (simp add: qa_submit_branch [OF assms] empty SUPPORTED_NORM_value ustr_def)
  have c: "go_to_sentinel json_loads (''qa-submit.n_clicks'' # others) (Some n) chip_clicks
            (Some (ustr ''predict mb next 60 days'')) = Returns SENTINEL_REDIRECT"
    using example by (simp add: qa_submit_branch [OF assms])
  have d: "go_to_sentinel json_loads (''qa-submit.n_clicks'' # others) (Some n) chip_clicks text
            = Returns SENTINEL_REDIRECT
          \<longleftrightarrow>
            norm_text text
              = norm_text (Some (ustr ''Predict the main bearing failures in the next 2 months?''))
            \<or> (contains (norm_text text) (ustr ''predict'')
                \<and> (contains (norm_text text) (ustr ''mainbearing'')
                     \<or> contains (norm_text text) (ustr ''mb''))
                \<and> (contains (norm_text text) (ustr ''next2months'')
                     \<or> contains (norm_text text) (ustr ''nexttwomonths'')
                     \<or> contains (norm_text text) (ustr ''next60days'')))"
    by (simp add: qa_submit_branch [OF assms] str_in_contains [symmetric] SUPPORTED_NORM_def)
  have e: "go_to_sentinel json_loads (''qa-submit.n_clicks'' # others) (Some n) chip_clicks text
            \<noteq> Returns SENTINEL_REDIRECT
          \<longrightarrow> go_to_sentinel json_loads (''qa-submit.n_clicks'' # others) (Some n) chip_clicks text
            = PreventUpdate"
    by (simp add: qa_submit_branch [OF assms])
  from a b c d e show ?thesis by blast
qed

text \<open>Claim C6 at one click of the Ask button.\<close>

theorem supported_query_matched_witness:
  "(1::int) \<noteq> 0
   \<and> go_to_sentinel (\<lambda>_. Map.empty) [''qa-submit.n_clicks''] (Some 1) [0, 0, 0, 0]
        (Some (ustr ''predict mb next 60 days'')) = Returns SENTINEL_REDIRECT
   \<and> go_to_sentinel (\<lambda>_. Map.empty) [''qa-submit.n_clicks''] (Some 1) [0, 0, 0, 0] None
        = PreventUpdate"
proof -
  have h: "(1::int) \<noteq> 0" by simp
  show ?thesis
    using h supported_query_matched [OF h, of "\<lambda>_. Map.empty" "[]" "[0, 0, 0, 0]" None]
    by simp
qed

section \<open>Properties of the scenario flow\<close>

lemma contains_sublist: "contains hay needle \<longleftrightarrow> sublist needle hay"
  by (simp add: contains_def sublist_def)

lemma lower_Cons: "lower (c # v) = lower_char c @ lower v"
  by (simp add: lower_def)

lemma lower_char_single: "c \<noteq> 0x130 \<Longrightarrow> \<exists>e. lower_char c = [e]"
  by (simp add: lower_char_def)

lemma lower_char_dotted: "lower_char 0x130 = [0x69, 0x307]"
  by (simp add: lower_char_def)

text \<open>A text that has no combining dot U+0307 and does not end in \<^verbatim>\<open>i\<close> can begin the
  lower-cased \<open>v\<close> only as the lower-cased form of a beginning of \<open>v\<close>: the one character
  that lower-cases to two, U+0130, gives \<^verbatim>\<open>i\<close> followed by U+0307.\<close>

lemma prefix_lower:
  assumes "0x307 \<notin> set x" and "x \<noteq> [] \<Longrightarrow> last x \<noteq> 0x69" and "prefix x (lower v)"
  shows "\<exists>w. prefix w v \<and> lower w = x"
  using assms
proof (induction v arbitrary: x)
  case Nil
  then have "x = []"
    by (simp add: lower_def)
  then show ?case
    by (simp add: lower_def)
next
  case (Cons c v)
  show ?case
  proof (cases x)
    case Nil
    then have "prefix [] (c # v) \<and> lower [] = x"
      by (simp add: lower_def)
    then show ?thesis ..
  next
    case x: (Cons y x')
    show ?thesis
    proof (cases "c = 0x130")
      case True
      with Cons.prems(3) x have "prefix (y # x') (0x69 # 0x307 # lower v)"
        by (simp add: lower_Cons lower_char_dotted)
      then have "y = 0x69" and "prefix x' (0x307 # lower v)"
        by simp_all
      then have "x' = [] \<or> (\<exists>t. x' = 0x307 # t)"
        by (cases x') simp_all
      with Cons.prems(1,2) x \<open>y = 0x69\<close> show ?thesis
        by auto
    next
      case False
      then obtain e where e: "lower_char c = [e]"
        using lower_char_single by blast
      with Cons.prems(3) x have p: "y = e" "prefix x' (lower v)"
        by (simp_all add: lower_Cons)
      from Cons.prems(1) x have 1: "0x307 \<notin> set x'"
        by simp
      from Cons.prems(2) x have 2: "x' \<noteq> [] \<Longrightarrow> last x' \<noteq> 0x69"
        by simp
      from Cons.IH [OF 1 2 p(2)] obtain w where w: "prefix w v" "lower w = x'"
        by blast
      with e p x have "prefix (c # w) (c # v) \<and> lower (c # w) = x"
        by (simp add: lower_Cons)
      then show ?thesis ..
    qed
  qed
qed

lemma sublist_lower:
  assumes "0x307 \<notin> set x" and "x \<noteq> [] \<Longrightarrow> last x \<noteq> 0x69" and "sublist x (lower v)"
  shows "\<exists>w. sublist w v \<and> lower w = x"
  using assms(3)
proof (induction v)
  case Nil
  then have "sublist [] ([] :: ustring) \<and> lower [] = x"
    by (simp add: lower_def)
  then show ?case ..
next
  case (Cons c v)
  have tail: "\<exists>w. sublist w (c # v) \<and> lower w = x" if "sublist x (lower v)"
  proof -
    from Cons.IH [OF that] obtain w where "sublist w v" "lower w = x"
      by blast
    then have "sublist w (c # v) \<and> lower w = x"
      by (simp add: sublist_Cons_right)
    then show ?thesis ..
  qed
  have head: "\<exists>w. sublist w (c # v) \<and> lower w = x" if "prefix x (lower (c # v))"
  proof -
    from prefix_lower [OF assms(1,2) that] obtain w where "prefix w (c # v)" "lower w = x"
      by blast
    then have "sublist w (c # v) \<and> lower w = x"
      by (simp add: prefix_imp_sublist)
    then show ?thesis ..
  qed
  show ?case
  proof (cases "c = 0x130")
    case True
    with Cons.prems have "sublist x (0x69 # 0x307 # lower v)"
      by (simp add: lower_Cons lower_char_dotted)
    then consider "prefix x (0x69 # 0x307 # lower v)" | "prefix x (0x307 # lower v)"
      | "sublist x (lower v)"
      by (auto simp add: sublist_Cons_right)
    then show ?thesis
    proof cases
      case 1
      with True have "prefix x (lower (c # v))"
        by (simp add: lower_Cons lower_char_dotted)
      then show ?thesis
        by (rule head)
    next
      case 2
      then have "x = [] \<or> (\<exists>t. x = 0x307 # t)"
        by (cases x) simp_all
      with assms(1) have "x = []"
        by auto
      then have "sublist [] (c # v) \<and> lower [] = x"
        by (simp add: lower_def)
      then show ?thesis ..
    next
      case 3
      then show ?thesis
        by (rule tail)
    qed
  next
    case False
    then obtain e where e: "lower_char c = [e]"
      using lower_char_single by blast
    with Cons.prems have "sublist x (e # lower v)"
      by (simp add: lower_Cons)
    then consider "prefix x (e # lower v)" | "sublist x (lower v)"
      by (auto simp add: sublist_Cons_right)
    then show ?thesis
    proof cases
      case 1
      with e have "prefix x (lower (c # v))"
        by (simp add: lower_Cons)
      then show ?thesis
        by (rule head)
    next
      case 2
      then show ?thesis
        by (rule tail)
    qed
  qed
qed

lemma go_branch:
  "start_flow (''go.n_clicks'' # others) go_clicks settings_clicks search_value =
     (case search_value of
        Some v \<Rightarrow>
          if v \<noteq> [] \<and> str_in (ustr ''wind'') (lower v)
          then (Set ''loading'',
                Set (Text (''Initializing turbine sensors A0'' @ EN_DASH @ ''A71...'')),
                Set (Text []))
          else if v \<noteq> [] then (no_update, no_update, Set (Html unsupported_message))
          else (no_update, no_update, Set (Html empty_message))
      | None \<Rightarrow> (no_update, no_update, Set (Html empty_message)))"
  by (simp only: start_flow_def list.sel split_dot_first_go Let_def) simp

lemma wind_value: "ustr ''wind'' = [0x77, 0x69, 0x6E, 0x64]"
  by (simp add: ustr_def)

lemma str_in_lower: "str_in (ustr ''wind'') (lower v) \<longleftrightarrow> contains_ci v (ustr ''wind'')"
proof
  assume "str_in (ustr ''wind'') (lower v)"
  then have "sublist (ustr ''wind'') (lower v)"
    by (simp only: str_in_sublist)
  moreover have "0x307 \<notin> set (ustr ''wind'')" and "last (ustr ''wind'') \<noteq> 0x69"
    by (simp_all add: wind_value)
  ultimately have "\<exists>w. sublist w v \<and> lower w = ustr ''wind''"
    by (intro sublist_lower) simp_all
  then show "contains_ci v (ustr ''wind'')"
    by (simp add: contains_ci_def contains_sublist)
next
  assume "contains_ci v (ustr ''wind'')"
  then obtain w a b where "v = a @ w @ b" "lower w = ustr ''wind''"
    by (auto simp add: contains_ci_def contains_def)
  then have "lower v = lower a @ ustr ''wind'' @ lower b"
    by (simp add: lower_append)
  then have "sublist (ustr ''wind'') (lower v)"
    unfolding sublist_def by blast
  then show "str_in (ustr ''wind'') (lower v)"
    by (simp only: str_in_sublist)
qed

lemma not_contains_ci_empty: "\<not> contains_ci [] (ustr ''wind'')"
  by (auto simp add: contains_ci_def contains_def lower_def wind_value)

text \<open>
  Claim C8.  When the Go button triggers \<^verbatim>\<open>start_flow\<close>, the stage \<^verbatim>\<open>select\<close> becomes
  \<^verbatim>\<open>loading\<close> exactly when the submitted text contains \<^verbatim>\<open>wind\<close>, case ignored.  Any other
  text that is not empty leaves the stage and the loader status as they are and shows the
  message that only the wind scenario is available; an empty or absent text leaves them as
  they are and shows the message asking for a selection.  The two messages differ.
\<close>

theorem scenario_flow:
  "(case start_flow (''go.n_clicks'' # others) go_clicks settings_clicks search_value of
      (stage, status, err) \<Rightarrow>
        (apply_upd ''select'' stage = ''loading''
           \<longleftrightarrow> (\<exists>v. search_value = Some v \<and> contains_ci v (ustr ''wind'')))
        \<and> ((\<exists>v. search_value = Some v \<and> v \<noteq> [] \<and> \<not> contains_ci v (ustr ''wind''))
             \<longrightarrow> stage = no_update \<and> status = no_update
                 \<and> apply_upd ''select'' stage = ''select''
                 \<and> err = Set (Html unsupported_message))
        \<and> (search_value = None \<or> search_value = Some []
             \<longrightarrow> stage = no_update \<and> status = no_update
                 \<and> apply_upd ''select'' stage = ''select''
                 \<and> err = Set (Html empty_message)))
   \<and> unsupported_message \<noteq> empty_message"
proof (cases search_value)
  case None
  then show ?thesis
    by (simp add: go_branch apply_upd_def unsupported_message_def empty_message_def)
next
  case (Some v)
  show ?thesis
  proof (cases "v = []")
    case True
    with Some show ?thesis
      using not_contains_ci_empty
      by (simp add: go_branch apply_upd_def unsupported_message_def empty_message_def)
  next
    case False
    with Some show ?thesis
      by (simp add: go_branch str_in_lower apply_upd_def unsupported_message_def
          empty_message_def)
  qed
qed

text \<open>Claim C8 at the texts \<^verbatim>\<open>Wind turbines (Sentinel)\<close>, \<^verbatim>\<open>grid\<close> and the empty text.\<close>

theorem scenario_flow_witness:
  "contains_ci (ustr ''Wind turbines (Sentinel)'') (ustr ''wind'')
   \<and> \<not> contains_ci (ustr ''grid'') (ustr ''wind'')
   \<and> apply_upd ''select''
         (fst (start_flow [''go.n_clicks''] (Some 1) None
                 (Some (ustr ''Wind turbines (Sentinel)''))))
       = ''loading''
   \<and> start_flow [''go.n_clicks''] (Some 1) None (Some (ustr ''grid''))
       = (no_update, no_update, Set (Html unsupported_message))
   \<and> start_flow [''go.n_clicks''] (Some 1) None (Some [])
       = (no_update, no_update, Set (Html empty_message))"
proof -
  have "str_in (ustr ''wind'') (lower (ustr ''Wind turbines (Sentinel)''))"
    by code_simp
  then have w: "contains_ci (ustr ''Wind turbines (Sentinel)'') (ustr ''wind'')"
    by (simp only: str_in_lower)
  have "\<not> str_in (ustr ''wind'') (lower (ustr ''grid''))"
    by code_simp
  then have g: "\<not> contains_ci (ustr ''grid'') (ustr ''wind'')"
    by (simp add: str_in_lower)
  have ne: "ustr ''grid'' \<noteq> []"
    by (simp add: ustr_def)
  have 1: "apply_upd ''select''
             (fst (start_flow [''go.n_clicks''] (Some 1) None
                     (Some (ustr ''Wind turbines (Sentinel)''))))
           = ''loading''"
    using w scenario_flow [where others = "[]" and go_clicks = "Some 1" and settings_clicks = None
        and search_value = "Some (ustr ''Wind turbines (Sentinel)'')"]
    by (cases "start_flow [''go.n_clicks''] (Some 1) None
                 (Some (ustr ''Wind turbines (Sentinel)''))")
      simp
  have 2: "start_flow [''go.n_clicks''] (Some 1) None (Some (ustr ''grid''))
           = (no_update, no_update, Set (Html unsupported_message))"
    using g ne scenario_flow [where others = "[]" and go_clicks = "Some 1"
        and settings_clicks = None and search_value = "Some (ustr ''grid'')"]
    by (cases "start_flow [''go.n_clicks''] (Some 1) None (Some (ustr ''grid''))") simp
  have 3: "start_flow [''go.n_clicks''] (Some 1) None (Some [])
           = (no_update, no_update, Set (Html empty_message))"
    using scenario_flow [where others = "[]" and go_clicks = "Some 1" and settings_clicks = None
        and search_value = "Some []"]
    by (cases "start_flow [''go.n_clicks''] (Some 1) None (Some [])") simp
  from w g 1 2 3 show ?thesis
    by blast
qed

section \<open>Properties of the suggestion chips\<close>

lemma startswith_append: "startswith (p @ s) p"
  by (simp add: startswith_prefix)

lemma qchip_branch:
  assumes "split_dot_first t = QCHIP_PREFIX @ r" and "as_int (json_loads (QCHIP_PREFIX @ r) ''index'') = Some i"
  shows "go_to_sentinel json_loads (t # others) ask_clicks chip_clicks free_text =
     (if chip_clicks = [] \<or> int (length chip_clicks) \<le> i then PreventUpdate
      else case py_index chip_clicks i of
             None \<Rightarrow> Raises IndexError
           | Some n \<Rightarrow> if n \<le> 0 then PreventUpdate
                       else if i = 0 then Returns SENTINEL_REDIRECT else PreventUpdate)"
proof -
  have "QCHIP_PREFIX @ r \<noteq> ''qa-submit''"
    by (simp add: QCHIP_PREFIX_def)
  then show ?thesis
    using assms by (simp add: go_to_sentinel_def startswith_append Let_def)
qed

text \<open>For an index that is not negative the chip branch never fails: chip 0 redirects once
  it has been clicked, and every other index, in range or not, raises \<^verbatim>\<open>PreventUpdate\<close>.\<close>

lemma chip_selection_from_zero:
  assumes "split_dot_first t = QCHIP_PREFIX @ r"
    and "as_int (json_loads (QCHIP_PREFIX @ r) ''index'') = Some i" and "0 \<le> i"
  shows "go_to_sentinel json_loads (t # others) ask_clicks chip_clicks free_text =
     (if i = 0 \<and> chip_clicks \<noteq> [] \<and> 0 < hd chip_clicks then Returns SENTINEL_REDIRECT
      else PreventUpdate)"
  using assms(3)
  by (cases chip_clicks)
    (auto simp add: qchip_branch [of t r json_loads i, OF assms(1,2)] py_index_def Let_def)

text \<open>
  Claim C7, evaluated.  The guard of the chip branch bounds the index from above only
  (\<^verbatim>\<open>idx >= len(chip_clicks)\<close>).  With four chips and the index \<^verbatim>\<open>-5\<close> the guard lets the
  index through and \<^verbatim>\<open>chip_clicks[idx]\<close> raises \<^verbatim>\<open>IndexError\<close>: an out-of-range index that
  ends in an error and not in \<^verbatim>\<open>PreventUpdate\<close>.
\<close>

theorem chip_index_below_range_raises:
  "go_to_sentinel (\<lambda>_. [''type'' \<mapsto> JStr ''qchip'', ''index'' \<mapsto> JInt (- 5)])
     [QCHIP_PREFIX @ [CHR '','', CHR 0x22] @ ''index'' @ [CHR 0x22] @ '':-5}.n_clicks'']
     (Some 0) [1, 0, 0, 0] None
   = Raises IndexError"
  by code_simp

section \<open>Properties of the graph builder\<close>

lemma out_nodes_append: "out_nodes (xs @ ys) = out_nodes xs @ out_nodes ys"
  by (induction xs rule: out_nodes.induct) simp_all

lemma out_edges_append: "out_edges (xs @ ys) = out_edges xs @ out_edges ys"
  by (induction xs rule: out_edges.induct) simp_all

lemma out_nodes_as_nodes: "out_nodes (as_nodes ns) = ns"
  by (induction ns) (simp_all add: as_nodes_def)

lemma out_edges_as_nodes: "out_edges (as_nodes ns) = []"
  by (induction ns) (simp_all add: as_nodes_def)

lemma out_nodes_edges: "out_nodes (map (\<lambda>i. EdgeElement (f i)) xs) = []"
  by (induction xs) simp_all

lemma out_edges_edges: "out_edges (map (\<lambda>i. EdgeElement (f i)) xs) = map f xs"
  by (induction xs) simp_all

lemma map_nid_paint: "map nid (paint bg bd L) = map nid L"
  by (simp add: paint_def)

lemma map_core_paint: "map core (paint bg bd L) = map core L"
  by (simp add: paint_def core_def)

lemma paint_paint: "paint bg bd (paint bg' bd' L) = paint bg bd L"
  by (simp add: paint_def)

lemma paint_cong_core: "map core xs = map core ys \<Longrightarrow> paint bg bd xs = paint bg bd ys"
proof (induction xs arbitrary: ys)
  case Nil
  then show ?case by (simp add: paint_def)
next
  case (Cons x xs)
  then obtain y ys' where ys: "ys = y # ys'" "core x = core y" "map core xs = map core ys'"
    by (cases ys) auto
  have "x\<lparr>bgcolor := Some bg, bordercolor := Some bd\<rparr> = y\<lparr>bgcolor := Some bg, bordercolor := Some bd\<rparr>"
    using ys(2) by (cases x, cases y) (simp add: core_def)
  with Cons.IH [OF ys(3)] ys(1) show ?case
    by (simp add: paint_def)
qed

lemma vary_weights_length: "length (vary_weights u k idx es) = length es"
  by (induction idx arbitrary: k es) simp_all

lemma map_update_same:
  assumes "f (xs ! i) = f y"
  shows "map f (xs[i := y]) = map f xs"
proof (cases "i < length xs")
  case True
  with assms show ?thesis
    by (simp add: map_update list_update_same_conv)
next
  case False
  then show ?thesis
    by (simp add: list_update_beyond)
qed

lemma vary_weights_ends: "map ends (vary_weights u k idx es) = map ends es"
  by (induction idx arbitrary: k es) (simp_all add: map_update_same ends_def)

lemma update_elements_nodes:
  "out_nodes (fst (update_elements layers_value uniform c)) =
     paint ''#3b82f6'' ''#2563eb'' (RAW_FEATURES c) @ paint ''#f59e0b'' ''#d97706'' (OUTCOMES c)
     @ (if ''physics'' \<in> toggles layers_value
        then paint ''#10b981'' ''#059669'' (PHYSICS_FEATURES c) else [])
     @ (if ''statistical'' \<in> toggles layers_value
        then paint ''#8b5cf6'' ''#7c3aed'' (STATISTICAL_FEATURES c) else [])
     @ (if ''anomaly'' \<in> toggles layers_value
        then paint ''#ef4444'' ''#dc2626'' (ANOMALY_FEATURES c) else [])"
  apply (cases "''physics'' \<in> toggles layers_value";
      cases "''statistical'' \<in> toggles layers_value";
      cases "''anomaly'' \<in> toggles layers_value")
         apply (simp_all only: update_elements_def Let_def if_True if_False fst_conv
      out_nodes_append out_nodes_as_nodes out_nodes_edges append_Nil append_Nil2 append_assoc)
  done

lemma nid_image_paint: "nid ` set (paint bg bd L) = nid ` set L"
  using map_nid_paint [of bg bd L] by (metis set_map)

lemma out_node_ids:
  "set (map nid (out_nodes (fst (update_elements layers_value uniform c))))
     = present_ids (toggles layers_value) c"
  by (cases "''physics'' \<in> toggles layers_value";
      cases "''statistical'' \<in> toggles layers_value";
      cases "''anomaly'' \<in> toggles layers_value")
    (simp_all add: update_elements_nodes present_ids_def nid_image_paint)

lemma update_elements_edges:
  "out_edges (fst (update_elements layers_value uniform c)) =
     map (\<lambda>i. vary_weights uniform 0 (kept (toggles layers_value) c) (BASE_EDGES c) ! i)
       (kept (toggles layers_value) c)"
  apply (cases "''physics'' \<in> toggles layers_value";
      cases "''statistical'' \<in> toggles layers_value";
      cases "''anomaly'' \<in> toggles layers_value")
         apply (simp_all only: update_elements_def Let_def if_True if_False fst_conv
      out_edges_append out_edges_as_nodes out_edges_edges append_Nil kept_def present_ids_def
      map_append map_nid_paint append_Nil append_Nil2 append_assoc list.map)
  done

lemma update_elements_base:
  "BASE_EDGES (snd (update_elements layers_value uniform c)) =
     vary_weights uniform 0 (kept (toggles layers_value) c) (BASE_EDGES c)"
  apply (cases "''physics'' \<in> toggles layers_value";
      cases "''statistical'' \<in> toggles layers_value";
      cases "''anomaly'' \<in> toggles layers_value")
         apply (simp_all only: update_elements_def Let_def if_True if_False snd_conv
      catalog.select_convs kept_def present_ids_def
      map_append map_nid_paint append_Nil append_Nil2 append_assoc list.map)
  done

lemma update_elements_lists:
  "RAW_FEATURES (snd (update_elements layers_value uniform c))
     = paint ''#3b82f6'' ''#2563eb'' (RAW_FEATURES c)"
  "OUTCOMES (snd (update_elements layers_value uniform c))
     = paint ''#f59e0b'' ''#d97706'' (OUTCOMES c)"
  "PHYSICS_FEATURES (snd (update_elements layers_value uniform c))
     = (if ''physics'' \<in> toggles layers_value
        then paint ''#10b981'' ''#059669'' (PHYSICS_FEATURES c) else PHYSICS_FEATURES c)"
  "STATISTICAL_FEATURES (snd (update_elements layers_value uniform c))
     = (if ''statistical'' \<in> toggles layers_value
        then paint ''#8b5cf6'' ''#7c3aed'' (STATISTICAL_FEATURES c)
        else STATISTICAL_FEATURES c)"
  "ANOMALY_FEATURES (snd (update_elements layers_value uniform c))
     = (if ''anomaly'' \<in> toggles layers_value
        then paint ''#ef4444'' ''#dc2626'' (ANOMALY_FEATURES c) else ANOMALY_FEATURES c)"
  by (simp_all only: update_elements_def Let_def snd_conv catalog.select_convs)

lemma kept_in_range: "i \<in> set (kept T c) \<Longrightarrow> i < length (BASE_EDGES c)"
  by (simp add: kept_def)

lemma kept_iff:
  "i \<in> set (kept T c) \<longleftrightarrow>
     i < length (BASE_EDGES c) \<and> source (BASE_EDGES c ! i) \<in> present_ids T c
       \<and> target (BASE_EDGES c ! i) \<in> present_ids T c"
  by (auto simp add: kept_def)

lemma ends_vary_weights_nth:
  assumes "i < length es"
  shows "ends (vary_weights u k idx es ! i) = ends (es ! i)"
proof -
  have "ends (vary_weights u k idx es ! i) = map ends (vary_weights u k idx es) ! i"
    using assms by (simp add: vary_weights_length)
  also have "\<dots> = map ends es ! i"
    by (simp only: vary_weights_ends)
  also have "\<dots> = ends (es ! i)"
    using assms by simp
  finally show ?thesis .
qed

lemma out_edges_ends:
  "map ends (out_edges (fst (update_elements layers_value uniform c)))
     = map (\<lambda>i. ends (BASE_EDGES c ! i)) (kept (toggles layers_value) c)"
  by (simp add: update_elements_edges ends_vary_weights_nth kept_in_range)

text \<open>
  Claim C5.  For every catalog, every toggle set and every random source: an edge of the
  catalog is among the edges returned (as the pair of its endpoints; the weight is redrawn)
  exactly when its source id and its target id are both ids of returned nodes; so every
  returned edge has both endpoints among the returned nodes.
\<close>

theorem edge_shown_iff_endpoints_shown:
  "let out = fst (update_elements layers_value uniform c);
       ids = set (map nid (out_nodes out))
   in (\<forall>e \<in> set (BASE_EDGES c).
         ends e \<in> set (map ends (out_edges out)) \<longleftrightarrow> source e \<in> ids \<and> target e \<in> ids)
      \<and> (\<forall>e \<in> set (out_edges out). source e \<in> ids \<and> target e \<in> ids)"
proof -
  define T where "T = toggles layers_value"
  define P where "P = present_ids T c"
  define E where "E = BASE_EDGES c"
  have shown: "set (map ends (out_edges (fst (update_elements layers_value uniform c))))
               = {ends (E ! i) | i. i < length E \<and> source (E ! i) \<in> P \<and> target (E ! i) \<in> P}"
    by (auto simp add: out_edges_ends kept_iff T_def P_def E_def)
  have a: "ends e \<in> set (map ends (out_edges (fst (update_elements layers_value uniform c))))
           \<longleftrightarrow> source e \<in> P \<and> target e \<in> P" if "e \<in> set E" for e
  proof
    assume "ends e \<in> set (map ends (out_edges (fst (update_elements layers_value uniform c))))"
    then obtain i where "ends e = ends (E ! i)" "source (E ! i) \<in> P" "target (E ! i) \<in> P"
      unfolding shown by blast
    then show "source e \<in> P \<and> target e \<in> P"
      by (simp add: ends_def)
  next
    assume p: "source e \<in> P \<and> target e \<in> P"
    from that obtain i where "i < length E" "E ! i = e"
      by (auto simp add: in_set_conv_nth)
    with p show "ends e \<in> set (map ends (out_edges (fst (update_elements layers_value uniform c))))"
      unfolding shown by blast
  qed
  have b: "source e \<in> P \<and> target e \<in> P"
    if "e \<in> set (out_edges (fst (update_elements layers_value uniform c)))" for e
  proof -
    from that have "ends e \<in> set (map ends (out_edges (fst (update_elements layers_value uniform c))))"
      by simp
    then obtain i where "ends e = ends (E ! i)" "source (E ! i) \<in> P" "target (E ! i) \<in> P"
      unfolding shown by blast
    then show ?thesis
      by (simp add: ends_def)
  qed
  have ids: "set (map nid (out_nodes (fst (update_elements layers_value uniform c)))) = P"
    by (simp only: out_node_ids P_def T_def)
  show ?thesis
    unfolding Let_def ids using a b by (simp add: E_def)
qed

lemma paint_colours:
  "n \<in> set (paint bg bd L) \<Longrightarrow> bgcolor n = Some bg \<and> bordercolor n = Some bd"
  by (auto simp add: paint_def)

text \<open>
  Claim C3, amended.  A call leaves every node list of the catalog with the same nodes in the
  same order, their id, label and category unchanged, and the edge list with the same edges
  in the same order, their endpoints unchanged.  It writes colours into the catalog: after
  the call every raw node has the background \<^verbatim>\<open>#3b82f6\<close> and the border \<^verbatim>\<open>#2563eb\<close>, every
  outcome node \<^verbatim>\<open>#f59e0b\<close> and \<^verbatim>\<open>#d97706\<close>, and every node of an optional category that is
  toggled on the pair of its category (physics \<^verbatim>\<open>#10b981\<close> and \<^verbatim>\<open>#059669\<close>, statistical
  \<^verbatim>\<open>#8b5cf6\<close> and \<^verbatim>\<open>#7c3aed\<close>, anomaly \<^verbatim>\<open>#ef4444\<close> and \<^verbatim>\<open>#dc2626\<close>); the node list of a
  category that is toggled off is left as it was.
\<close>

theorem catalog_after_call:
  "let c' = snd (update_elements layers_value uniform c) in
     map core (RAW_FEATURES c') = map core (RAW_FEATURES c)
     \<and> map core (OUTCOMES c') = map core (OUTCOMES c)
     \<and> map core (PHYSICS_FEATURES c') = map core (PHYSICS_FEATURES c)
     \<and> map core (STATISTICAL_FEATURES c') = map core (STATISTICAL_FEATURES c)
     \<and> map core (ANOMALY_FEATURES c') = map core (ANOMALY_FEATURES c)
     \<and> map ends (BASE_EDGES c') = map ends (BASE_EDGES c)
     \<and> (\<forall>n \<in> set (RAW_FEATURES c').
           bgcolor n = Some ''#3b82f6'' \<and> bordercolor n = Some ''#2563eb'')
     \<and> (\<forall>n \<in> set (OUTCOMES c').
           bgcolor n = Some ''#f59e0b'' \<and> bordercolor n = Some ''#d97706'')
     \<and> (''physics'' \<in> toggles layers_value \<longrightarrow>
          (\<forall>n \<in> set (PHYSICS_FEATURES c').
             bgcolor n = Some ''#10b981'' \<and> bordercolor n = Some ''#059669''))
     \<and> (''physics'' \<notin> toggles layers_value \<longrightarrow> PHYSICS_FEATURES c' = PHYSICS_FEATURES c)
     \<and> (''statistical'' \<in> toggles layers_value \<longrightarrow>
          (\<forall>n \<in> set (STATISTICAL_FEATURES c').
             bgcolor n = Some ''#8b5cf6'' \<and> bordercolor n = Some ''#7c3aed''))
     \<and> (''statistical'' \<notin> toggles layers_value \<longrightarrow>
          STATISTICAL_FEATURES c' = STATISTICAL_FEATURES c)
     \<and> (''anomaly'' \<in> toggles layers_value \<longrightarrow>
          (\<forall>n \<in> set (ANOMALY_FEATURES c').
             bgcolor n = Some ''#ef4444'' \<and> bordercolor n = Some ''#dc2626''))
     \<and> (''anomaly'' \<notin> toggles layers_value \<longrightarrow> ANOMALY_FEATURES c' = ANOMALY_FEATURES c)"
proof -
  let ?c = "snd (update_elements layers_value uniform c)"
  have cores: "map core (RAW_FEATURES ?c) = map core (RAW_FEATURES c)"
    "map core (OUTCOMES ?c) = map core (OUTCOMES c)"
    "map core (PHYSICS_FEATURES ?c) = map core (PHYSICS_FEATURES c)"
    "map core (STATISTICAL_FEATURES ?c) = map core (STATISTICAL_FEATURES c)"
    "map core (ANOMALY_FEATURES ?c) = map core (ANOMALY_FEATURES c)"
    by (simp_all add: update_elements_lists map_core_paint)
  have edges: "map ends (BASE_EDGES ?c) = map ends (BASE_EDGES c)"
    by (simp add: update_elements_base vary_weights_ends)
  have always: "\<forall>n \<in> set (RAW_FEATURES ?c).
      bgcolor n = Some ''#3b82f6'' \<and> bordercolor n = Some ''#2563eb''"
    "\<forall>n \<in> set (OUTCOMES ?c). bgcolor n = Some ''#f59e0b'' \<and> bordercolor n = Some ''#d97706''"
    using paint_colours by (simp_all only: update_elements_lists) blast+
  have on: "''physics'' \<in> toggles layers_value \<longrightarrow>
      (\<forall>n \<in> set (PHYSICS_FEATURES ?c).
         bgcolor n = Some ''#10b981'' \<and> bordercolor n = Some ''#059669'')"
    "''statistical'' \<in> toggles layers_value \<longrightarrow>
      (\<forall>n \<in> set (STATISTICAL_FEATURES ?c).
         bgcolor n = Some ''#8b5cf6'' \<and> bordercolor n = Some ''#7c3aed'')"
    "''anomaly'' \<in> toggles layers_value \<longrightarrow>
      (\<forall>n \<in> set (ANOMALY_FEATURES ?c).
         bgcolor n = Some ''#ef4444'' \<and> bordercolor n = Some ''#dc2626'')"
    using paint_colours by (simp_all only: update_elements_lists) auto
  have off: "''physics'' \<notin> toggles layers_value \<longrightarrow> PHYSICS_FEATURES ?c = PHYSICS_FEATURES c"
    "''statistical'' \<notin> toggles layers_value \<longrightarrow>
       STATISTICAL_FEATURES ?c = STATISTICAL_FEATURES c"
    "''anomaly'' \<notin> toggles layers_value \<longrightarrow> ANOMALY_FEATURES ?c = ANOMALY_FEATURES c"
    by (simp_all only: update_elements_lists) simp_all
  from cores edges always on off show ?thesis
    unfolding Let_def by blast
qed

text \<open>Claim C5 at the initial catalog: with the physics layer on, the edge from
  \<^verbatim>\<open>active_power\<close> to \<^verbatim>\<open>power_efficiency\<close> is returned; with no layer on, the edge from
  \<^verbatim>\<open>power_efficiency\<close> to \<^verbatim>\<open>failure_risk\<close> is not.\<close>

theorem edge_shown_iff_endpoints_shown_witness:
  "link ''active_power'' ''power_efficiency'' (9 / 10) \<in> set (BASE_EDGES CATALOG)
   \<and> (''active_power'', ''power_efficiency'')
       \<in> set (map ends (out_edges
                (fst (update_elements (Some [''physics'']) (constant_draw 1) CATALOG))))
   \<and> link ''power_efficiency'' ''failure_risk'' (8 / 10) \<in> set (BASE_EDGES CATALOG)
   \<and> (''power_efficiency'', ''failure_risk'')
       \<notin> set (map ends (out_edges (fst (update_elements None (constant_draw 1) CATALOG))))"
proof -
  let ?e = "link ''active_power'' ''power_efficiency'' (9 / 10)"
  let ?f = "link ''power_efficiency'' ''failure_risk'' (8 / 10)"
  let ?out = "fst (update_elements (Some [''physics'']) (constant_draw 1) CATALOG)"
  let ?none = "fst (update_elements None (constant_draw 1) CATALOG)"
  have m: "?e \<in> set (BASE_EDGES CATALOG)" "?f \<in> set (BASE_EDGES CATALOG)"
    by code_simp+
  have s: "source ?e \<in> set (map nid (out_nodes ?out))
           \<and> target ?e \<in> set (map nid (out_nodes ?out))"
    by code_simp
  have t: "source ?f \<notin> set (map nid (out_nodes ?none))"
    by code_simp
  have "ends ?e \<in> set (map ends (out_edges ?out))"
    using edge_shown_iff_endpoints_shown [of "Some [''physics'']" "constant_draw 1" CATALOG] m s
    unfolding Let_def by blast
  moreover have "ends ?f \<notin> set (map ends (out_edges ?none))"
    using edge_shown_iff_endpoints_shown [of None "constant_draw 1" CATALOG] m t
    unfolding Let_def by blast
  moreover have "ends ?e = (''active_power'', ''power_efficiency'')"
    "ends ?f = (''power_efficiency'', ''failure_risk'')"
    by (simp_all add: ends_def link_def)
  ultimately show ?thesis
    using m by simp
qed

text \<open>
  Claim C3 as stated fails: one call with the physics layer on changes a node record of the
  catalog (the first raw node gets a colour) and a base weight (the first edge goes from
  0.9 to 0.972).
\<close>

theorem catalog_changed_by_call:
  "bgcolor (hd (RAW_FEATURES CATALOG)) = None
   \<and> bgcolor (hd (RAW_FEATURES
        (snd (update_elements (Some [''physics'']) (constant_draw (27 / 25)) CATALOG))))
       = Some ''#3b82f6''
   \<and> weight (hd (BASE_EDGES CATALOG)) = 9 / 10
   \<and> weight (hd (BASE_EDGES
        (snd (update_elements (Some [''physics'']) (constant_draw (27 / 25)) CATALOG))))
       = 243 / 250"
  by code_simp

text \<open>
  Claim C3, amended, at the initial catalog with the physics layer on and every draw 1.08.
  The call shows edges (the first is the one from \<^verbatim>\<open>active_power\<close> to \<^verbatim>\<open>power_efficiency\<close>);
  afterwards the first physics node, \<^verbatim>\<open>power_efficiency\<close>, which had no colour, has the
  colours of its category, the first raw node has those of the raw nodes, the anomaly nodes
  are as they were, still without a colour, and the edges keep their endpoints.
\<close>

theorem catalog_after_call_witness:
  "''physics'' \<in> toggles (Some [''physics''])
   \<and> ''anomaly'' \<notin> toggles (Some [''physics''])
   \<and> ends (hd (out_edges (fst (update_elements (Some [''physics''])
        (constant_draw (27 / 25)) CATALOG)))) = (''active_power'', ''power_efficiency'')
   \<and> core (hd (PHYSICS_FEATURES CATALOG))
       = (''power_efficiency'', ''Power Efficiency'', ''physics'')
   \<and> bgcolor (hd (PHYSICS_FEATURES CATALOG)) = None
   \<and> core (hd (PHYSICS_FEATURES
        (snd (update_elements (Some [''physics'']) (constant_draw (27 / 25)) CATALOG))))
       = (''power_efficiency'', ''Power Efficiency'', ''physics'')
   \<and> bgcolor (hd (PHYSICS_FEATURES
        (snd (update_elements (Some [''physics'']) (constant_draw (27 / 25)) CATALOG))))
       = Some ''#10b981''
   \<and> bordercolor (hd (PHYSICS_FEATURES
        (snd (update_elements (Some [''physics'']) (constant_draw (27 / 25)) CATALOG))))
       = Some ''#059669''
   \<and> bgcolor (hd (RAW_FEATURES
        (snd (update_elements (Some [''physics'']) (constant_draw (27 / 25)) CATALOG))))
       = Some ''#3b82f6''
   \<and> bordercolor (hd (RAW_FEATURES
        (snd (update_elements (Some [''physics'']) (constant_draw (27 / 25)) CATALOG))))
       = Some ''#2563eb''
   \<and> ANOMALY_FEATURES
        (snd (update_elements (Some [''physics'']) (constant_draw (27 / 25)) CATALOG))
       = ANOMALY_FEATURES_init
   \<and> bgcolor (hd ANOMALY_FEATURES_init) = None
   \<and> map ends (BASE_EDGES
        (snd (update_elements (Some [''physics'']) (constant_draw (27 / 25)) CATALOG)))
       = map ends BASE_EDGES_init"
proof -
  let ?c = "snd (update_elements (Some [''physics'']) (constant_draw (27 / 25)) CATALOG)"
  have t: "''physics'' \<in> toggles (Some [''physics''])"
    "''anomaly'' \<notin> toggles (Some [''physics''])"
    by (simp_all add: toggles_def)
  have before: "core (hd (PHYSICS_FEATURES CATALOG))
       = (''power_efficiency'', ''Power Efficiency'', ''physics'')"
    "bgcolor (hd (PHYSICS_FEATURES CATALOG)) = None"
    "bgcolor (hd ANOMALY_FEATURES_init) = None"
    "PHYSICS_FEATURES CATALOG \<noteq> []" "RAW_FEATURES CATALOG \<noteq> []"
    "ANOMALY_FEATURES CATALOG = ANOMALY_FEATURES_init"
    "BASE_EDGES CATALOG = BASE_EDGES_init"
    by (simp_all add: CATALOG_def PHYSICS_FEATURES_init_def RAW_FEATURES_init_def
        ANOMALY_FEATURES_init_def mk_node_def core_def)
  have shown: "ends (hd (out_edges (fst (update_elements (Some [''physics''])
        (constant_draw (27 / 25)) CATALOG)))) = (''active_power'', ''power_efficiency'')"
    by code_simp
  note call = catalog_after_call [of "Some [''physics'']" "constant_draw (27 / 25)" CATALOG,
      unfolded Let_def]
  from call have cores: "map core (PHYSICS_FEATURES ?c) = map core (PHYSICS_FEATURES CATALOG)"
    "map core (RAW_FEATURES ?c) = map core (RAW_FEATURES CATALOG)"
    by blast+
  with before(4,5) have ne: "PHYSICS_FEATURES ?c \<noteq> []" "RAW_FEATURES ?c \<noteq> []"
    by auto
  from cores(1) ne(1) before(4) have "core (hd (PHYSICS_FEATURES ?c)) = core (hd (PHYSICS_FEATURES CATALOG))"
    by (metis hd_map)
  with before(1) have 1: "core (hd (PHYSICS_FEATURES ?c))
      = (''power_efficiency'', ''Power Efficiency'', ''physics'')"
    by simp
  from call t(1) have "\<forall>n \<in> set (PHYSICS_FEATURES ?c).
      bgcolor n = Some ''#10b981'' \<and> bordercolor n = Some ''#059669''"
    by blast
  with ne(1) have 2: "bgcolor (hd (PHYSICS_FEATURES ?c)) = Some ''#10b981''"
    "bordercolor (hd (PHYSICS_FEATURES ?c)) = Some ''#059669''"
    by simp_all
  from call have "\<forall>n \<in> set (RAW_FEATURES ?c).
      bgcolor n = Some ''#3b82f6'' \<and> bordercolor n = Some ''#2563eb''"
    by blast
  with ne(2) have 3: "bgcolor (hd (RAW_FEATURES ?c)) = Some ''#3b82f6''"
    "bordercolor (hd (RAW_FEATURES ?c)) = Some ''#2563eb''"
    by simp_all
  from call t(2) before(6) have 4: "ANOMALY_FEATURES ?c = ANOMALY_FEATURES_init"
    by simp
  from call before(7) have 5: "map ends (BASE_EDGES ?c) = map ends BASE_EDGES_init"
    by simp
  from t shown before(1,2,3) 1 2 3 4 5 show ?thesis
    by blast
qed

text \<open>
  Claim C1, evaluated.  Two calls with the physics layer on, every draw being 1.08 (inside
  the range of \<^verbatim>\<open>random.uniform(0.9, 1.1)\<close>): the first call writes 0.972 into the catalog as
  the weight of the edge from \<^verbatim>\<open>active_power\<close> to \<^verbatim>\<open>power_efficiency\<close>, whose base weight is
  0.9, and the second call draws from 0.972 and returns 1.05, above 1.1 times 0.9.
\<close>

theorem weight_leaves_band_on_second_call:
  "(9 / 10 \<le> (27 / 25 :: rat) \<and> (27 / 25 :: rat) \<le> 11 / 10)
   \<and> ends (hd (BASE_EDGES CATALOG)) = (''active_power'', ''power_efficiency'')
   \<and> weight (hd (BASE_EDGES CATALOG)) = 9 / 10
   \<and> ends (hd (out_edges (fst (update_elements (Some [''physics'']) (constant_draw (27 / 25))
        (snd (update_elements (Some [''physics'']) (constant_draw (27 / 25)) CATALOG))))))
       = (''active_power'', ''power_efficiency'')
   \<and> weight (hd (out_edges (fst (update_elements (Some [''physics'']) (constant_draw (27 / 25))
        (snd (update_elements (Some [''physics'']) (constant_draw (27 / 25)) CATALOG))))))
       = 21 / 20
   \<and> \<not> (21 / 20 \<le> 11 / 10 * (9 / 10 :: rat))"
  by code_simp

section \<open>The nodes shown, after any sequence of calls\<close>

lemma cores_after_call:
  "map core (RAW_FEATURES (snd (update_elements layers_value uniform c)))
     = map core (RAW_FEATURES c)"
  "map core (OUTCOMES (snd (update_elements layers_value uniform c))) = map core (OUTCOMES c)"
  "map core (PHYSICS_FEATURES (snd (update_elements layers_value uniform c)))
     = map core (PHYSICS_FEATURES c)"
  "map core (STATISTICAL_FEATURES (snd (update_elements layers_value uniform c)))
     = map core (STATISTICAL_FEATURES c)"
  "map core (ANOMALY_FEATURES (snd (update_elements layers_value uniform c)))
     = map core (ANOMALY_FEATURES c)"
  by (simp_all only: update_elements_lists map_core_paint if_distrib [of "map core"] if_cancel)

lemma cores_after_calls:
  "map core (RAW_FEATURES (after_calls calls c)) = map core (RAW_FEATURES c)
   \<and> map core (OUTCOMES (after_calls calls c)) = map core (OUTCOMES c)
   \<and> map core (PHYSICS_FEATURES (after_calls calls c)) = map core (PHYSICS_FEATURES c)
   \<and> map core (STATISTICAL_FEATURES (after_calls calls c)) = map core (STATISTICAL_FEATURES c)
   \<and> map core (ANOMALY_FEATURES (after_calls calls c)) = map core (ANOMALY_FEATURES c)"
proof (induction calls arbitrary: c)
  case Nil
  show ?case by simp
next
  case (Cons call calls)
  obtain layers_value uniform where call: "call = (layers_value, uniform)"
    by (cases call)
  show ?case
    by (simp only: call after_calls.simps Cons.IH cores_after_call simp_thms)
qed

lemma update_elements_cong:
  assumes "''physics'' \<in> toggles a \<longleftrightarrow> ''physics'' \<in> toggles b"
    and "''statistical'' \<in> toggles a \<longleftrightarrow> ''statistical'' \<in> toggles b"
    and "''anomaly'' \<in> toggles a \<longleftrightarrow> ''anomaly'' \<in> toggles b"
  shows "update_elements a uniform c = update_elements b uniform c"
  apply (insert assms)
  apply (cases "''physics'' \<in> toggles a"; cases "''statistical'' \<in> toggles a";
      cases "''anomaly'' \<in> toggles a")
         apply (simp_all only: update_elements_def Let_def if_True if_False simp_thms)
  done

lemma toggles_optional:
  "t \<in> {''physics'', ''statistical'', ''anomaly''} \<Longrightarrow>
     t \<in> toggles (optional layers_value) \<longleftrightarrow> t \<in> toggles layers_value"
  by (cases layers_value) (simp_all only: toggles_def optional_def option.case set_filter mem_Collect_eq simp_thms)

lemma ids_distinct:
  "distinct (map nid (RAW_FEATURES_init @ OUTCOMES_init @ PHYSICS_FEATURES_init
     @ STATISTICAL_FEATURES_init @ ANOMALY_FEATURES_init))"
  by code_simp

lemma categories_all:
  "list_all (\<lambda>n. classes n = ''raw'') RAW_FEATURES_init"
  "list_all (\<lambda>n. classes n = ''outcome'') OUTCOMES_init"
  "list_all (\<lambda>n. classes n = ''physics'') PHYSICS_FEATURES_init"
  "list_all (\<lambda>n. classes n = ''statistical'') STATISTICAL_FEATURES_init"
  "list_all (\<lambda>n. classes n = ''anomaly'') ANOMALY_FEATURES_init"
  by code_simp+

lemma paint_after_calls:
  "paint bg bd (RAW_FEATURES (after_calls calls CATALOG)) = paint bg bd RAW_FEATURES_init"
  "paint bg bd (OUTCOMES (after_calls calls CATALOG)) = paint bg bd OUTCOMES_init"
  "paint bg bd (PHYSICS_FEATURES (after_calls calls CATALOG)) = paint bg bd PHYSICS_FEATURES_init"
  "paint bg bd (STATISTICAL_FEATURES (after_calls calls CATALOG))
     = paint bg bd STATISTICAL_FEATURES_init"
  "paint bg bd (ANOMALY_FEATURES (after_calls calls CATALOG)) = paint bg bd ANOMALY_FEATURES_init"
proof -
  have init: "RAW_FEATURES CATALOG = RAW_FEATURES_init" "OUTCOMES CATALOG = OUTCOMES_init"
    "PHYSICS_FEATURES CATALOG = PHYSICS_FEATURES_init"
    "STATISTICAL_FEATURES CATALOG = STATISTICAL_FEATURES_init"
    "ANOMALY_FEATURES CATALOG = ANOMALY_FEATURES_init"
    by (simp_all only: CATALOG_def catalog.select_convs)
  note same = cores_after_calls [of calls CATALOG, unfolded init]
  show "paint bg bd (RAW_FEATURES (after_calls calls CATALOG)) = paint bg bd RAW_FEATURES_init"
    by (rule paint_cong_core) (simp only: same)
  show "paint bg bd (OUTCOMES (after_calls calls CATALOG)) = paint bg bd OUTCOMES_init"
    by (rule paint_cong_core) (simp only: same)
  show "paint bg bd (PHYSICS_FEATURES (after_calls calls CATALOG))
          = paint bg bd PHYSICS_FEATURES_init"
    by (rule paint_cong_core) (simp only: same)
  show "paint bg bd (STATISTICAL_FEATURES (after_calls calls CATALOG))
          = paint bg bd STATISTICAL_FEATURES_init"
    by (rule paint_cong_core) (simp only: same)
  show "paint bg bd (ANOMALY_FEATURES (after_calls calls CATALOG))
          = paint bg bd ANOMALY_FEATURES_init"
    by (rule paint_cong_core) (simp only: same)
qed

lemma shown_nodes_after_calls:
  "out_nodes (fst (update_elements layers_value uniform (after_calls calls CATALOG))) =
     paint ''#3b82f6'' ''#2563eb'' RAW_FEATURES_init @ paint ''#f59e0b'' ''#d97706'' OUTCOMES_init
     @ (if ''physics'' \<in> toggles layers_value
        then paint ''#10b981'' ''#059669'' PHYSICS_FEATURES_init else [])
     @ (if ''statistical'' \<in> toggles layers_value
        then paint ''#8b5cf6'' ''#7c3aed'' STATISTICAL_FEATURES_init else [])
     @ (if ''anomaly'' \<in> toggles layers_value
        then paint ''#ef4444'' ''#dc2626'' ANOMALY_FEATURES_init else [])"
  by (simp only: update_elements_nodes paint_after_calls)

lemma classes_paint: "n \<in> set (paint bg bd L) \<Longrightarrow> \<exists>m \<in> set L. classes n = classes m"
  by (auto simp add: paint_def)

lemma categories:
  "n \<in> set RAW_FEATURES_init \<Longrightarrow> classes n = ''raw''"
  "n \<in> set OUTCOMES_init \<Longrightarrow> classes n = ''outcome''"
  "n \<in> set PHYSICS_FEATURES_init \<Longrightarrow> classes n = ''physics''"
  "n \<in> set STATISTICAL_FEATURES_init \<Longrightarrow> classes n = ''statistical''"
  "n \<in> set ANOMALY_FEATURES_init \<Longrightarrow> classes n = ''anomaly''"
  using categories_all by (simp_all only: list_all_iff)

lemma ids_disjoint:
  "nid ` set RAW_FEATURES_init \<inter> nid ` set PHYSICS_FEATURES_init = {}"
  "nid ` set RAW_FEATURES_init \<inter> nid ` set STATISTICAL_FEATURES_init = {}"
  "nid ` set RAW_FEATURES_init \<inter> nid ` set ANOMALY_FEATURES_init = {}"
  "nid ` set OUTCOMES_init \<inter> nid ` set PHYSICS_FEATURES_init = {}"
  "nid ` set OUTCOMES_init \<inter> nid ` set STATISTICAL_FEATURES_init = {}"
  "nid ` set OUTCOMES_init \<inter> nid ` set ANOMALY_FEATURES_init = {}"
  "nid ` set PHYSICS_FEATURES_init \<inter> nid ` set STATISTICAL_FEATURES_init = {}"
  "nid ` set PHYSICS_FEATURES_init \<inter> nid ` set ANOMALY_FEATURES_init = {}"
  "nid ` set STATISTICAL_FEATURES_init \<inter> nid ` set ANOMALY_FEATURES_init = {}"
  using ids_distinct by (auto simp only: map_append distinct_append set_append set_map)

lemma shown_ids_after_calls:
  "set (map nid (out_nodes (fst (update_elements layers_value uniform (after_calls calls CATALOG)))))
     = nid ` set RAW_FEATURES_init \<union> nid ` set OUTCOMES_init
       \<union> (if ''physics'' \<in> toggles layers_value then nid ` set PHYSICS_FEATURES_init else {})
       \<union> (if ''statistical'' \<in> toggles layers_value
          then nid ` set STATISTICAL_FEATURES_init else {})
       \<union> (if ''anomaly'' \<in> toggles layers_value then nid ` set ANOMALY_FEATURES_init else {})"
  by (cases "''physics'' \<in> toggles layers_value";
      cases "''statistical'' \<in> toggles layers_value";
      cases "''anomaly'' \<in> toggles layers_value")
    (simp_all only: shown_nodes_after_calls if_True if_False map_append set_append set_map
      nid_image_paint append_Nil2 Un_empty_right Un_empty_left Un_assoc list.map list.set)

text \<open>
  Claim C4.  After any sequence of earlier calls on the initial catalog, for every checklist
  value and every random source: the returned nodes contain every raw and every outcome
  node; they contain a physics, statistical or anomaly node exactly when the category of the
  node is among the toggles; every returned node is raw, outcome, or of an optional category
  that is toggled on; and tokens that name no optional category change nothing, the result
  being that of the call with those tokens removed.
\<close>

theorem layers_shown:
  "let out = fst (update_elements layers_value uniform (after_calls calls CATALOG));
       ids = set (map nid (out_nodes out));
       T = toggles layers_value
   in (\<forall>n \<in> set RAW_FEATURES_init \<union> set OUTCOMES_init. nid n \<in> ids)
      \<and> (\<forall>n \<in> set PHYSICS_FEATURES_init. nid n \<in> ids \<longleftrightarrow> ''physics'' \<in> T)
      \<and> (\<forall>n \<in> set STATISTICAL_FEATURES_init. nid n \<in> ids \<longleftrightarrow> ''statistical'' \<in> T)
      \<and> (\<forall>n \<in> set ANOMALY_FEATURES_init. nid n \<in> ids \<longleftrightarrow> ''anomaly'' \<in> T)
      \<and> (\<forall>n \<in> set (out_nodes out).
            classes n \<in> {''raw'', ''outcome''}
            \<or> (classes n \<in> {''physics'', ''statistical'', ''anomaly''} \<and> classes n \<in> T))
      \<and> update_elements layers_value uniform (after_calls calls CATALOG)
          = update_elements (optional layers_value) uniform (after_calls calls CATALOG)"
proof -
  define c where "c = after_calls calls CATALOG"
  define out where "out = fst (update_elements layers_value uniform c)"
  define ids where "ids = set (map nid (out_nodes out))"
  define T where "T = toggles layers_value"
  have ids: "ids = nid ` set RAW_FEATURES_init \<union> nid ` set OUTCOMES_init
       \<union> (if ''physics'' \<in> T then nid ` set PHYSICS_FEATURES_init else {})
       \<union> (if ''statistical'' \<in> T then nid ` set STATISTICAL_FEATURES_init else {})
       \<union> (if ''anomaly'' \<in> T then nid ` set ANOMALY_FEATURES_init else {})"
    unfolding ids_def out_def c_def T_def by (rule shown_ids_after_calls)
  have always: "nid n \<in> ids" if "n \<in> set RAW_FEATURES_init \<union> set OUTCOMES_init" for n
    using that unfolding ids by blast
  have physics: "nid n \<in> ids \<longleftrightarrow> ''physics'' \<in> T" if "n \<in> set PHYSICS_FEATURES_init" for n
    using that ids_disjoint unfolding ids by (auto split: if_splits)
  have statistical: "nid n \<in> ids \<longleftrightarrow> ''statistical'' \<in> T"
    if "n \<in> set STATISTICAL_FEATURES_init" for n
    using that ids_disjoint unfolding ids by (auto split: if_splits)
  have anomaly: "nid n \<in> ids \<longleftrightarrow> ''anomaly'' \<in> T" if "n \<in> set ANOMALY_FEATURES_init" for n
    using that ids_disjoint unfolding ids by (auto split: if_splits)
  have nodes: "out_nodes out =
     paint ''#3b82f6'' ''#2563eb'' RAW_FEATURES_init @ paint ''#f59e0b'' ''#d97706'' OUTCOMES_init
     @ (if ''physics'' \<in> T then paint ''#10b981'' ''#059669'' PHYSICS_FEATURES_init else [])
     @ (if ''statistical'' \<in> T then paint ''#8b5cf6'' ''#7c3aed'' STATISTICAL_FEATURES_init else [])
     @ (if ''anomaly'' \<in> T then paint ''#ef4444'' ''#dc2626'' ANOMALY_FEATURES_init else [])"
    unfolding out_def c_def T_def by (rule shown_nodes_after_calls)
  have category: "classes n \<in> {''raw'', ''outcome''}
            \<or> (classes n \<in> {''physics'', ''statistical'', ''anomaly''} \<and> classes n \<in> T)"
    if "n \<in> set (out_nodes out)" for n
  proof -
    from that consider
      "n \<in> set (paint ''#3b82f6'' ''#2563eb'' RAW_FEATURES_init)"
      | "n \<in> set (paint ''#f59e0b'' ''#d97706'' OUTCOMES_init)"
      | "''physics'' \<in> T" "n \<in> set (paint ''#10b981'' ''#059669'' PHYSICS_FEATURES_init)"
      | "''statistical'' \<in> T" "n \<in> set (paint ''#8b5cf6'' ''#7c3aed'' STATISTICAL_FEATURES_init)"
      | "''anomaly'' \<in> T" "n \<in> set (paint ''#ef4444'' ''#dc2626'' ANOMALY_FEATURES_init)"
      unfolding nodes by (auto split: if_splits)
    then show ?thesis
    proof cases
      case 1
      then show ?thesis using classes_paint categories(1) by fastforce
    next
      case 2
      then show ?thesis using classes_paint categories(2) by fastforce
    next
      case 3
      then show ?thesis using classes_paint categories(3) by fastforce
    next
      case 4
      then show ?thesis using classes_paint categories(4) by fastforce
    next
      case 5
      then show ?thesis using classes_paint categories(5) by fastforce
    qed
  qed
  have ignored: "update_elements layers_value uniform c
                 = update_elements (optional layers_value) uniform c"
    by (rule update_elements_cong) (simp_all add: toggles_optional)
  show ?thesis
    unfolding Let_def
    using always physics statistical anomaly category ignored
    unfolding ids_def out_def c_def T_def by blast
qed

text \<open>Claim C4 at the toggles \<^verbatim>\<open>physics\<close> and \<^verbatim>\<open>unknown\<close>, after a call with the statistical
  layer on: the physics node \<^verbatim>\<open>power_efficiency\<close> is shown, the statistical node
  \<^verbatim>\<open>active_power_moment\<close> is not.\<close>

theorem layers_shown_witness:
  "mk_node ''power_efficiency'' ''Power Efficiency'' ''physics'' \<in> set PHYSICS_FEATURES_init
   \<and> mk_node ''active_power_moment'' ''Power Moment'' ''statistical''
       \<in> set STATISTICAL_FEATURES_init
   \<and> ''physics'' \<in> toggles (Some [''physics'', ''unknown''])
   \<and> ''statistical'' \<notin> toggles (Some [''physics'', ''unknown''])
   \<and> ''power_efficiency''
       \<in> set (map nid (out_nodes (fst (update_elements (Some [''physics'', ''unknown''])
            (constant_draw 1) (after_calls [(Some [''statistical''], constant_draw 1)] CATALOG)))))
   \<and> ''active_power_moment''
       \<notin> set (map nid (out_nodes (fst (update_elements (Some [''physics'', ''unknown''])
            (constant_draw 1) (after_calls [(Some [''statistical''], constant_draw 1)] CATALOG)))))"
proof -
  let ?p = "mk_node ''power_efficiency'' ''Power Efficiency'' ''physics''"
  let ?s = "mk_node ''active_power_moment'' ''Power Moment'' ''statistical''"
  let ?ids = "set (map nid (out_nodes (fst (update_elements (Some [''physics'', ''unknown''])
            (constant_draw 1) (after_calls [(Some [''statistical''], constant_draw 1)] CATALOG)))))"
  have m: "?p \<in> set PHYSICS_FEATURES_init" "?s \<in> set STATISTICAL_FEATURES_init"
    by (simp_all add: PHYSICS_FEATURES_init_def STATISTICAL_FEATURES_init_def)
  have t: "''physics'' \<in> toggles (Some [''physics'', ''unknown''])"
    "''statistical'' \<notin> toggles (Some [''physics'', ''unknown''])"
    by (simp_all add: toggles_def)
  have "nid ?p \<in> ?ids" "nid ?s \<notin> ?ids"
    using m t
      layers_shown [of "Some [''physics'', ''unknown'']" "constant_draw 1"
        "[(Some [''statistical''], constant_draw 1)]"]
    unfolding Let_def by blast+
  moreover have "nid ?p = ''power_efficiency''" "nid ?s = ''active_power_moment''"
    by (simp_all add: mk_node_def)
  ultimately have "''power_efficiency'' \<in> ?ids" "''active_power_moment'' \<notin> ?ids"
    by metis+
  with m t show ?thesis
    by blast
qed

end
